theory Spec2Isabelle
  imports Main "HOL-Library.Word"
begin

section \<open>JavaScript values\<close>

text \<open>
  The scanner reads authorization and transaction fields without checking their type, and
  its behaviour depends on JavaScript truthiness (\<^verbatim>\<open>a || b\<close>) and on strict equality
  (\<^verbatim>\<open>===\<close>). A field is therefore a value of \<open>jsval\<close>: \<open>JNum\<close> is an integer-valued
  number, \<open>JBig\<close> a BigInt, \<open>JStr\<close> a string, \<open>JNaN\<close> the number NaN. Equality of two
  \<open>jsval\<close>s is \<^verbatim>\<open>===\<close> wherever the code compares with a constant (a number is never
  \<^verbatim>\<open>===\<close> a BigInt or a string).
\<close>

type_synonym byte = "8 word"

datatype jsval = JUndefined | JNull | JNaN | JNum int | JBig int | JStr string

fun truthy :: "jsval \<Rightarrow> bool" where
  "truthy JUndefined = False"
| "truthy JNull = False"
| "truthy JNaN = False"
| "truthy (JNum n) = (n \<noteq> 0)"
| "truthy (JBig n) = (n \<noteq> 0)"
| "truthy (JStr s) = (s \<noteq> [])"

text \<open>\<^verbatim>\<open>a || b\<close>\<close>

definition js_or :: "jsval \<Rightarrow> jsval \<Rightarrow> jsval" where
  "js_or a b = (if truthy a then a else b)"

text \<open>\<^verbatim>\<open>x !== undefined && x !== null\<close>\<close>

definition present :: "jsval \<Rightarrow> bool" where
  "present x = (x \<noteq> JUndefined \<and> x \<noteq> JNull)"

text \<open>\<^verbatim>\<open>String.prototype.toLowerCase\<close> on the ASCII letters (addresses are hex strings).\<close>

definition lower_char :: "char \<Rightarrow> char" where
  "lower_char c =
     (case map_of (zip ''ABCDEFGHIJKLMNOPQRSTUVWXYZ'' ''abcdefghijklmnopqrstuvwxyz'') c of
        None \<Rightarrow> c
      | Some l \<Rightarrow> l)"

definition toLowerCase :: "string \<Rightarrow> string" where
  "toLowerCase s = map lower_char s"

text \<open>Decimal rendering of an integer, as \<^verbatim>\<open>toString()\<close> gives it for a number or a BigInt.\<close>

fun dec_digits :: "nat \<Rightarrow> string" where
  "dec_digits n =
     (if n < 10 then [''0123456789'' ! n]
      else dec_digits (n div 10) @ [''0123456789'' ! (n mod 10)])"

declare dec_digits.simps [simp del]

definition int_toString :: "int \<Rightarrow> string" where
  "int_toString i = (if i < 0 then CHR ''-'' # dec_digits (nat (- i)) else dec_digits (nat i))"

text \<open>\<^verbatim>\<open>x?.toString()\<close>: \<open>None\<close> is \<^verbatim>\<open>undefined\<close>.\<close>

fun opt_toString :: "jsval \<Rightarrow> string option" where
  "opt_toString JUndefined = None"
| "opt_toString JNull = None"
| "opt_toString JNaN = Some ''NaN''"
| "opt_toString (JNum n) = Some (int_toString n)"
| "opt_toString (JBig n) = Some (int_toString n)"
| "opt_toString (JStr s) = Some s"

section \<open>The library functions the code calls\<close>

text \<open>
  Hashing, RLP encoding, ECDSA recovery, BigInt parsing and date formatting are not code of
  this repository (they come from ethers, @ethersproject/rlp and the JavaScript runtime), so
  they are parameters of the model. A hex string that the library functions exchange is
  the byte list it denotes (\<^verbatim>\<open>'0x'\<close> is \<open>[]\<close>). \<open>None\<close> is a thrown exception.

  \<^item> \<open>keccak256\<close>: \<^verbatim>\<open>ethers.keccak256\<close>;
  \<^item> \<open>rlpEncode\<close>: \<^verbatim>\<open>encode\<close> of @ethersproject/rlp, on a list of byte strings;
  \<^item> \<open>recoverAddress digest r s v\<close>: \<^verbatim>\<open>ethers.recoverAddress(digest, {r, s, v})\<close>;
  \<^item> \<open>stringToBigInt\<close>: \<^verbatim>\<open>BigInt(s)\<close> for a string \<open>s\<close>;
  \<^item> \<open>toISOString ms\<close>: \<^verbatim>\<open>new Date(ms).toISOString()\<close>.
\<close>

record platform =
  keccak256 :: "byte list \<Rightarrow> byte list"
  rlpEncode :: "byte list list \<Rightarrow> byte list"
  recoverAddress :: "byte list \<Rightarrow> jsval \<Rightarrow> jsval \<Rightarrow> jsval \<Rightarrow> string option"
  stringToBigInt :: "string \<Rightarrow> int option"
  toISOString :: "int \<Rightarrow> string option"

text \<open>\<^verbatim>\<open>BigInt(x)\<close>: throws on undefined, null and NaN.\<close>

fun js_BigInt :: "platform \<Rightarrow> jsval \<Rightarrow> int option" where
  "js_BigInt p JUndefined = None"
| "js_BigInt p JNull = None"
| "js_BigInt p JNaN = None"
| "js_BigInt p (JNum n) = Some n"
| "js_BigInt p (JBig n) = Some n"
| "js_BigInt p (JStr s) = stringToBigInt p s"

text \<open>Big-endian bytes of a natural number, none for zero.\<close>

fun be_digits :: "nat \<Rightarrow> byte list" where
  "be_digits n = (if n = 0 then [] else be_digits (n div 256) @ [of_nat (n mod 256)])"

declare be_digits.simps [simp del]

text \<open>
  \<^verbatim>\<open>ethers.toBeHex(value)\<close>: throws on a negative value; the hex digits are padded to an
  even number, so zero is \<^verbatim>\<open>'0x00'\<close>, one zero byte.
\<close>

definition toBeHex :: "int \<Rightarrow> byte list option" where
  "toBeHex i = (if i < 0 then None else if i = 0 then Some [0] else Some (be_digits (nat i)))"

text \<open>
  A string is BytesLike for the RLP encoder when it is \<^verbatim>\<open>0x\<close> followed by an even number
  of hex digits; anything else makes the encoder throw.
\<close>

definition hex_digit :: "char \<Rightarrow> nat option" where
  "hex_digit c =
     (let n = (of_char c :: nat) in
      if 48 \<le> n \<and> n \<le> 57 then Some (n - 48)
      else if 97 \<le> n \<and> n \<le> 102 then Some (n - 87)
      else if 65 \<le> n \<and> n \<le> 70 then Some (n - 55)
      else None)"

fun hex_pairs :: "string \<Rightarrow> byte list option" where
  "hex_pairs [] = Some []"
| "hex_pairs [c] = None"
| "hex_pairs (c # d # cs) =
     (case (hex_digit c, hex_digit d, hex_pairs cs) of
        (Some h, Some l, Some bs) \<Rightarrow> Some (of_nat (16 * h + l) # bs)
      | _ \<Rightarrow> None)"

fun arrayify :: "jsval \<Rightarrow> byte list option" where
  "arrayify (JStr s) =
     (case s of
        c # d # cs \<Rightarrow> if c = CHR ''0'' \<and> d = CHR ''x'' then hex_pairs cs else None
      | _ \<Rightarrow> None)"
| "arrayify _ = None"

section \<open>Authority recovery (eip7702.js)\<close>

text \<open>
  An authorization entry. \<open>auth_signature\<close> is \<open>Some\<close> when the entry has a
  \<^verbatim>\<open>signature\<close> property that is a non-null object, and \<open>None\<close> otherwise.
\<close>

record signature_object =
  sig_r :: jsval
  sig_s :: jsval
  sig_v :: jsval
  sig_yParity :: jsval

record authorization =
  auth_chainId :: jsval
  auth_address :: jsval
  auth_nonce :: jsval
  auth_r :: jsval
  auth_s :: jsval
  auth_v :: jsval
  auth_yParity :: jsval
  auth_signature :: "signature_object option"

text \<open>
  The three items handed to the RLP encoder (lines 34-47 and again 104-117):
  \<^verbatim>\<open>
  const authChainId = authorization.chainId || chainId;
  const authAddress = authorization.address || '0x';
  const authNonce = authorization.nonce || 0;
  const chainIdHex = ethers.toBeHex(BigInt(authChainId));
  const nonceHex = authNonce === 0 || authNonce === '0x0' ? '0x' : ethers.toBeHex(BigInt(authNonce));
  const authTuple = [chainIdHex, authAddress, nonceHex];
  \<close>
  \<open>None\<close> when \<^verbatim>\<open>BigInt\<close>, \<^verbatim>\<open>toBeHex\<close> or the encoder's BytesLike check throws.
\<close>

definition nonceHex :: "platform \<Rightarrow> jsval \<Rightarrow> byte list option" where
  "nonceHex p authNonce =
     (if authNonce = JNum 0 \<or> authNonce = JStr ''0x0'' then Some []
      else case js_BigInt p authNonce of None \<Rightarrow> None | Some n \<Rightarrow> toBeHex n)"

definition authTuple :: "platform \<Rightarrow> authorization \<Rightarrow> jsval \<Rightarrow> byte list list option" where
  "authTuple p a chainId =
     (let authChainId = js_or (auth_chainId a) chainId;
          authAddress = js_or (auth_address a) (JStr ''0x'');
          authNonce = js_or (auth_nonce a) (JNum 0)
      in case js_BigInt p authChainId of
           None \<Rightarrow> None
         | Some c \<Rightarrow>
             (case toBeHex c of
                None \<Rightarrow> None
              | Some chainIdHex \<Rightarrow>
                  (case nonceHex p authNonce of
                     None \<Rightarrow> None
                   | Some nh \<Rightarrow>
                       (case arrayify authAddress of
                          None \<Rightarrow> None
                        | Some addr \<Rightarrow> Some [chainIdHex, addr, nh]))))"

text \<open>
  The recovery parameter (lines 64-74 and 124-133). \<open>Missing\<close>: neither \<^verbatim>\<open>v\<close> nor
  \<^verbatim>\<open>yParity\<close> is there; \<open>Unparsable\<close>: \<^verbatim>\<open>BigInt(authorization.yParity)\<close> throws.
\<close>

datatype recovery_param = UseV jsval | Missing | Unparsable

definition recoveryParam :: "platform \<Rightarrow> authorization \<Rightarrow> recovery_param" where
  "recoveryParam p a =
     (if present (auth_v a) then UseV (auth_v a)
      else if present (auth_yParity a) then
        (case js_BigInt p (auth_yParity a) of
           None \<Rightarrow> Unparsable
         | Some y \<Rightarrow> UseV (JNum (if y = 0 then 27 else 28)))
      else Missing)"

text \<open>
  A call of \<^verbatim>\<open>ethers.recoverAddress\<close>: the digest and the signature's \<open>r\<close>, \<open>s\<close>, \<open>v\<close>.
  Each attempt returns the calls it made and its outcome.
\<close>

type_synonym recover_call = "byte list \<times> jsval \<times> jsval \<times> jsval"

datatype 'a outcome = Returned 'a | Thrown

text \<open>The body of the \<^verbatim>\<open>try\<close> block (lines 16-93).\<close>

definition primaryAttempt ::
  "platform \<Rightarrow> authorization \<Rightarrow> jsval \<Rightarrow> recover_call list \<times> string option outcome" where
  "primaryAttempt p a chainId =
     (case authTuple p a chainId of
        None \<Rightarrow> ([], Thrown)
      | Some t \<Rightarrow>
          (let messageHash = keccak256 p (0x05 # rlpEncode p t) in
           case recoveryParam p a of
             Unparsable \<Rightarrow> ([], Thrown)
           | Missing \<Rightarrow> ([], Returned None)
           | UseV v \<Rightarrow>
               (case recoverAddress p messageHash (auth_r a) (auth_s a) v of
                  None \<Rightarrow> ([(messageHash, auth_r a, auth_s a, v)], Thrown)
                | Some recovered \<Rightarrow>
                    ([(messageHash, auth_r a, auth_s a, v)],
                     Returned (Some (toLowerCase recovered))))))"

text \<open>The inner \<^verbatim>\<open>try\<close> of the \<^verbatim>\<open>catch\<close> block (lines 103-154): no magic prefix.\<close>

definition fallbackAttempt ::
  "platform \<Rightarrow> authorization \<Rightarrow> jsval \<Rightarrow> recover_call list \<times> string option" where
  "fallbackAttempt p a chainId =
     (case authTuple p a chainId of
        None \<Rightarrow> ([], None)
      | Some t \<Rightarrow>
          (let messageHash = keccak256 p (rlpEncode p t);
               r = js_or (auth_r a) (JStr ''0x0'');
               s = js_or (auth_s a) (JStr ''0x0'')
           in case (case recoveryParam p a of Missing \<Rightarrow> UseV (JNum 27) | x \<Rightarrow> x) of
                UseV v \<Rightarrow>
                  (case recoverAddress p messageHash r s v of
                     None \<Rightarrow> ([(messageHash, r, s, v)], None)
                   | Some recovered \<Rightarrow> ([(messageHash, r, s, v)], Some (toLowerCase recovered)))
              | _ \<Rightarrow> ([], None)))"

definition recoverAuthorityAddress_traced ::
  "platform \<Rightarrow> authorization \<Rightarrow> jsval \<Rightarrow> recover_call list \<times> string option" where
  "recoverAuthorityAddress_traced p a chainId =
     (case primaryAttempt p a chainId of
        (calls, Returned res) \<Rightarrow> (calls, res)
      | (calls, Thrown) \<Rightarrow>
          (case fallbackAttempt p a chainId of (calls', res) \<Rightarrow> (calls @ calls', res)))"

text \<open>\<^verbatim>\<open>recoverAuthorityAddress(authorization, chainId)\<close>: \<open>None\<close> is \<^verbatim>\<open>null\<close>.\<close>

definition recoverAuthorityAddress :: "platform \<Rightarrow> authorization \<Rightarrow> jsval \<Rightarrow> string option" where
  "recoverAuthorityAddress p a chainId = snd (recoverAuthorityAddress_traced p a chainId)"

section \<open>Transactions, blocks and the chain provider\<close>

text \<open>
  \<open>tx_from\<close> is \<open>None\<close> when \<^verbatim>\<open>tx.from\<close> is not a string (\<^verbatim>\<open>tx.from.toLowerCase()\<close> then
  throws a TypeError); \<open>tx_authorizationList\<close> is \<open>None\<close> when the property is undefined or
  null. An element of \<^verbatim>\<open>block.transactions\<close> is a hash string or a full transaction body,
  as the provider delivers it; reading \<^verbatim>\<open>type\<close>, \<^verbatim>\<open>typeHex\<close> or \<^verbatim>\<open>authorizationList\<close>
  of a hash string gives \<^verbatim>\<open>undefined\<close>.
\<close>

record transaction =
  tx_hash :: string
  tx_from :: "string option"
  tx_type :: jsval
  tx_typeHex :: jsval
  tx_authorizationList :: "authorization list option"

datatype tx_entry = TxHash string | TxBody transaction

record block =
  block_number :: int
  block_timestamp :: "int option"
  block_transactions :: "tx_entry list option"

text \<open>
  The chain provider. A promise that rejects with an error whose message is \<open>msg\<close> is
  \<open>Inl msg\<close>; \<^verbatim>\<open>null\<close> is \<open>None\<close>.
\<close>

record provider =
  getBlockNumber :: "string + int"
  getBlock :: "int \<Rightarrow> string + block option"
  getTransaction :: "tx_entry \<Rightarrow> string + transaction option"

record DelegationRecord =
  d_txHash :: string
  d_blockNumber :: int
  d_timestamp :: string
  d_txSender :: string
  d_chainId :: jsval
  d_network :: string
  d_authority :: string
  d_delegatedTo :: "string option"
  d_nonce :: "string option"

text \<open>
  What a scanner does to the outside: the events it emits and what it writes with
  \<^verbatim>\<open>console.error\<close> (a label, without the transaction hash the source puts into it, and
  the error's message, empty where the source prints the error object).
\<close>

datatype effect =
    Emit_delegation DelegationRecord
  | Emit_error string
  | Console_error string string



text \<open>
  A timer the scanner has set: the endpoint check of \<^verbatim>\<open>setupPerformanceProfiler\<close>
  (\<^verbatim>\<open>setTimeout(checkEndpoints, 5000)\<close>) and the keep-alive interval of \<^verbatim>\<open>watchBlocks\<close>.
\<close>

datatype timer = CheckEndpoints_after_5000ms | KeepAlive_every_30000ms

text \<open>
  The scanner object. \<open>sc_chainId\<close> and \<open>sc_explorer\<close> are what the constructor read from
  the network table, which can be \<^verbatim>\<open>undefined\<close>. The listeners registered for the
  \<^verbatim>\<open>'delegation'\<close> event are closures with a state of their own, so what they do with a
  record can depend on every record they were called with before:
  \<open>sc_delegationListeners past d\<close> is what they do when they are called with \<open>d\<close> after
  having been called with the records \<open>past\<close>, \<open>None\<close> when they return and \<open>Some msg\<close>
  when one throws an error with message \<open>msg\<close> (\<^verbatim>\<open>emit\<close> calls the listeners
  synchronously, and an exception of a listener leaves \<^verbatim>\<open>emit\<close>). \<open>sc_delivered\<close> are
  the records the scanner has emitted so far. \<open>sc_blockHandlers\<close> counts the \<^verbatim>\<open>'block'\<close>
  handlers \<^verbatim>\<open>watchBlocks\<close> has registered on the provider. The request counter
  \<^verbatim>\<open>_metrics.requests\<close> and the caches set up by the constructor influence nothing the
  scanner returns or emits and are left out.
\<close>

record scanner =
  sc_network :: string
  sc_chainId :: jsval
  sc_explorer :: jsval
  sc_provider :: provider
  sc_wsProvider :: "provider option"
  sc_isMonitoring :: bool
  sc_profilerId :: string
  sc_timers :: "timer list"
  sc_blockHandlers :: nat
  sc_delegationListeners :: "DelegationRecord list \<Rightarrow> DelegationRecord \<Rightarrow> string option"
  sc_delivered :: "DelegationRecord list"

section \<open>The block filter (lib/scanner.js)\<close>

text \<open>
  \<^verbatim>\<open>parseInt(x, radix)\<close> for radix 16 (\<open>Some 16\<close>) and for no radix (\<open>None\<close>): leading
  white space, a sign, \<^verbatim>\<open>0x\<close> or \<^verbatim>\<open>0X\<close>, then the longest run of digits; NaN when there
  is none. White space is the ASCII white space.
\<close>

fun js_ToString :: "jsval \<Rightarrow> string" where
  "js_ToString JUndefined = ''undefined''"
| "js_ToString JNull = ''null''"
| "js_ToString JNaN = ''NaN''"
| "js_ToString (JNum n) = int_toString n"
| "js_ToString (JBig n) = int_toString n"
| "js_ToString (JStr s) = s"

definition is_space :: "char \<Rightarrow> bool" where
  "is_space c = (let n = (of_char c :: nat) in (9 \<le> n \<and> n \<le> 13) \<or> n = 32)"

definition radix_digit :: "nat \<Rightarrow> char \<Rightarrow> nat option" where
  "radix_digit R c = (case hex_digit c of None \<Rightarrow> None | Some d \<Rightarrow> if d < R then Some d else None)"

definition digits_value :: "nat \<Rightarrow> string \<Rightarrow> nat" where
  "digits_value R ds =
     foldl (\<lambda>acc c. R * acc + (case radix_digit R c of None \<Rightarrow> 0 | Some d \<Rightarrow> d)) 0 ds"

definition has_0x :: "string \<Rightarrow> bool" where
  "has_0x s =
     (case s of c # d # cs \<Rightarrow> c = CHR ''0'' \<and> (d = CHR ''x'' \<or> d = CHR ''X'') | _ \<Rightarrow> False)"

definition js_parseInt :: "jsval \<Rightarrow> nat option \<Rightarrow> jsval" where
  "js_parseInt x radix =
     (let s1 = dropWhile is_space (js_ToString x);
          neg = (case s1 of c # cs \<Rightarrow> c = CHR ''-'' | [] \<Rightarrow> False);
          s2 = (case s1 of c # cs \<Rightarrow> if c = CHR ''-'' \<or> c = CHR ''+'' then cs else s1 | [] \<Rightarrow> []);
          R = (if has_0x s2 then 16 else case radix of None \<Rightarrow> 10 | Some r \<Rightarrow> r);
          s3 = (if has_0x s2 then drop 2 s2 else s2);
          ds = takeWhile (\<lambda>c. radix_digit R c \<noteq> None) s3
      in if ds = [] then JNaN
         else JNum ((if neg then - 1 else 1) * int (digits_value R ds)))"

text \<open>
  The type test of \<^verbatim>\<open>scanBlock\<close> in lib/scanner.js (lines 233-235):
  \<^verbatim>\<open>
  const txType = tx.type !== undefined ? tx.type : (tx.typeHex ? parseInt(tx.typeHex, 16) : null);
  if ((txType === 4 || txType === '0x4') && tx.authorizationList && tx.authorizationList.length > 0)
  \<close>
\<close>

definition txType :: "transaction \<Rightarrow> jsval" where
  "txType tx =
     (if tx_type tx \<noteq> JUndefined then tx_type tx
      else if truthy (tx_typeHex tx) then js_parseInt (tx_typeHex tx) (Some 16)
      else JNull)"

definition hasAuthorizations :: "transaction \<Rightarrow> bool" where
  "hasAuthorizations tx = (case tx_authorizationList tx of None \<Rightarrow> False | Some l \<Rightarrow> l \<noteq> [])"

definition isType4 :: "transaction \<Rightarrow> bool" where
  "isType4 tx = (txType tx = JNum 4 \<or> txType tx = JStr ''0x4'')"

definition isDelegationSetup :: "transaction \<Rightarrow> bool" where
  "isDelegationSetup tx = (isType4 tx \<and> hasAuthorizations tx)"

text \<open>
  The same test in the other copy of the scanner (the file whose \<^verbatim>\<open>scanBlock\<close> reads the
  block without transaction bodies, lines 140-141):
  \<^verbatim>\<open>
  const txType = typeof tx.type === 'string' ? parseInt(tx.type, 16) : tx.type;
  if (txType === 4 && tx.authorizationList && tx.authorizationList.length > 0)
  \<close>
\<close>

definition txType_cli :: "transaction \<Rightarrow> jsval" where
  "txType_cli tx = (case tx_type tx of JStr s \<Rightarrow> js_parseInt (JStr s) (Some 16) | t \<Rightarrow> t)"

definition isDelegationSetup_cli :: "transaction \<Rightarrow> bool" where
  "isDelegationSetup_cli tx = (txType_cli tx = JNum 4 \<and> hasAuthorizations tx)"

text \<open>
  Normalisation of a nested signature object (\<^verbatim>\<open>processDelegation\<close>, lines 265-270):
  \<^verbatim>\<open>
  if (firstAuth.signature && typeof firstAuth.signature === 'object') {
    firstAuth.r = firstAuth.signature.r || firstAuth.r;
    firstAuth.s = firstAuth.signature.s || firstAuth.s;
    firstAuth.v = firstAuth.signature.v || firstAuth.v;
    firstAuth.yParity = firstAuth.signature.yParity || firstAuth.yParity;
  }
  \<close>
\<close>

definition normalizeSignature :: "authorization \<Rightarrow> authorization" where
  "normalizeSignature a =
     (case auth_signature a of
        None \<Rightarrow> a
      | Some sg \<Rightarrow>
          a\<lparr>auth_r := js_or (sig_r sg) (auth_r a),
            auth_s := js_or (sig_s sg) (auth_s a),
            auth_v := js_or (sig_v sg) (auth_v a),
            auth_yParity := js_or (sig_yParity sg) (auth_yParity a)\<rparr>)"

text \<open>\<^verbatim>\<open>firstAuth.address?.toLowerCase()\<close>: throws when the address is neither nullish nor a string.\<close>

fun opt_toLowerCase :: "jsval \<Rightarrow> string option outcome" where
  "opt_toLowerCase JUndefined = Returned None"
| "opt_toLowerCase JNull = Returned None"
| "opt_toLowerCase (JStr s) = Returned (Some (toLowerCase s))"
| "opt_toLowerCase _ = Thrown"

text \<open>
  \<^verbatim>\<open>processDelegation(tx, block)\<close> (lines 250-291). Every exception inside is caught and
  gives \<^verbatim>\<open>null\<close> (\<open>None\<close>). \<^verbatim>\<open>recoverAuthorityAddress\<close> catches its own exceptions, so the
  inner \<^verbatim>\<open>catch\<close> is never entered; \<^verbatim>\<open>authority || tx.from.toLowerCase()\<close> takes the sender
  when the recovery gave \<^verbatim>\<open>null\<close> (or an empty string).
\<close>

definition processDelegation ::
  "platform \<Rightarrow> scanner \<Rightarrow> transaction \<Rightarrow> block \<Rightarrow> DelegationRecord option" where
  "processDelegation p sc tx b =
     (case block_timestamp b of
        None \<Rightarrow> None
      | Some ts \<Rightarrow>
     (case toISOString p (ts * 1000) of
        None \<Rightarrow> None
      | Some isoTime \<Rightarrow>
     (case tx_from tx of
        None \<Rightarrow> None
      | Some sender \<Rightarrow>
     (case tx_authorizationList tx of
        None \<Rightarrow> None
      | Some [] \<Rightarrow> None
      | Some (first # rest) \<Rightarrow>
          (let firstAuth = normalizeSignature first;
               authority = recoverAuthorityAddress p firstAuth (sc_chainId sc)
           in case opt_toLowerCase (auth_address firstAuth) of
                Thrown \<Rightarrow> None
              | Returned delegatedTo \<Rightarrow>
                  Some \<lparr>d_txHash = tx_hash tx,
                        d_blockNumber = block_number b,
                        d_timestamp = isoTime,
                        d_txSender = toLowerCase sender,
                        d_chainId = sc_chainId sc,
                        d_network = sc_network sc,
                        d_authority =
                          (case authority of
                             None \<Rightarrow> toLowerCase sender
                           | Some a \<Rightarrow> if a = [] then toLowerCase sender else a),
                        d_delegatedTo = delegatedTo,
                        d_nonce = opt_toString (auth_nonce firstAuth)\<rparr>)))))"

text \<open>
  The transactions of the block, each fetched with its own \<^verbatim>\<open>catch\<close> (lines 220-227): a
  transaction that cannot be fetched is logged and becomes \<^verbatim>\<open>null\<close>.
\<close>

definition fetchTransactions :: "provider \<Rightarrow> tx_entry list \<Rightarrow> transaction option list \<times> effect list" where
  "fetchTransactions prov es =
     (map (\<lambda>e. case getTransaction prov e of Inl msg \<Rightarrow> None | Inr t \<Rightarrow> t) es,
      concat (map (\<lambda>e. case getTransaction prov e of
                          Inl msg \<Rightarrow> [Console_error ''Failed to fetch tx'' msg]
                        | Inr t \<Rightarrow> []) es))"

text \<open>
  The loop over the fetched transactions (lines 229-242), with the records \<open>past\<close> the
  listeners have been called with before. It returns the records pushed, the effects,
  and \<open>Some msg\<close> when an exception left the loop: the only statement of the loop that can
  throw is \<^verbatim>\<open>this.emit('delegation', delegation)\<close>, after the record has been pushed.
\<close>

fun scanTransactions ::
  "platform \<Rightarrow> scanner \<Rightarrow> block \<Rightarrow> DelegationRecord list \<Rightarrow> transaction option list \<Rightarrow>
     DelegationRecord list \<times> effect list \<times> string option" where
  "scanTransactions p sc b past [] = ([], [], None)"
| "scanTransactions p sc b past (None # txs) = scanTransactions p sc b past txs"
| "scanTransactions p sc b past (Some tx # txs) =
     (if isDelegationSetup tx then
        (case processDelegation p sc tx b of
           None \<Rightarrow>
             (case scanTransactions p sc b past txs of
                (ds, log, thrown) \<Rightarrow> (ds, Console_error ''Error processing delegation:'' [] # log, thrown))
         | Some d \<Rightarrow>
             (case sc_delegationListeners sc past d of
                Some msg \<Rightarrow> ([d], [Emit_delegation d], Some msg)
              | None \<Rightarrow>
                  (case scanTransactions p sc b (past @ [d]) txs of
                     (ds, log, thrown) \<Rightarrow> (d # ds, Emit_delegation d # log, thrown))))
      else scanTransactions p sc b past txs)"

text \<open>The body of the \<^verbatim>\<open>try\<close> block of \<^verbatim>\<open>scanBlock\<close> (lines 216-242).\<close>

definition scanBlock_try ::
  "platform \<Rightarrow> scanner \<Rightarrow> int \<Rightarrow> DelegationRecord list \<times> effect list \<times> string option" where
  "scanBlock_try p sc blockNumber =
     (case getBlock (sc_provider sc) blockNumber of
        Inl msg \<Rightarrow> ([], [], Some msg)
      | Inr None \<Rightarrow> ([], [], None)
      | Inr (Some b) \<Rightarrow>
          (case block_transactions b of
             None \<Rightarrow> ([], [], None)
           | Some es \<Rightarrow>
               (case fetchTransactions (sc_provider sc) es of
                  (txs, flog) \<Rightarrow>
                    (case scanTransactions p sc b (sc_delivered sc) txs of
                       (ds, log, thrown) \<Rightarrow> (ds, flog @ log, thrown)))))"

text \<open>
  \<^verbatim>\<open>scanBlock(blockNumber)\<close> (lines 209-248): the \<^verbatim>\<open>catch\<close> writes the error with
  \<^verbatim>\<open>console.error\<close>, and the function returns the list \<^verbatim>\<open>delegations\<close> as it stands. The
  result of an async function is \<open>Inr\<close> its value, or \<open>Inl\<close> the error it rejects with.
\<close>

definition scanBlock ::
  "platform \<Rightarrow> scanner \<Rightarrow> int \<Rightarrow> (string + DelegationRecord list) \<times> effect list" where
  "scanBlock p sc blockNumber =
     (case scanBlock_try p sc blockNumber of
        (ds, log, None) \<Rightarrow> (Inr ds, log)
      | (ds, log, Some msg) \<Rightarrow>
          (Inr ds, log @ [Console_error (''Error scanning block '' @ int_toString blockNumber @ '':'') msg]))"

section \<open>Watching new blocks\<close>

text \<open>
  \<^verbatim>\<open>watchBlocks()\<close> (lines 366-390) registers one more \<^verbatim>\<open>'block'\<close> handler on the provider
  and sets the keep-alive interval.
\<close>

definition watchBlocks :: "scanner \<Rightarrow> scanner" where
  "watchBlocks sc =
     sc\<lparr>sc_blockHandlers := Suc (sc_blockHandlers sc),
        sc_timers := sc_timers sc @ [KeepAlive_every_30000ms]\<rparr>"



section \<open>Delegation history\<close>

type_synonym history_entry = "DelegationRecord \<times> string"

definition ZeroAddress :: string where
  "ZeroAddress = ''0x0000000000000000000000000000000000000000''"

definition delegationStatus :: "DelegationRecord \<Rightarrow> string" where
  "delegationStatus d = (if d_delegatedTo d = Some ZeroAddress then ''revoked'' else ''active'')"

text \<open>
  The loop over the transactions of one block (lines 338-355). Its \<^verbatim>\<open>break\<close> leaves this
  loop only. \<open>Inl\<close>: \<^verbatim>\<open>tx.from.toLowerCase()\<close> throws, which ends the whole call. The type
  test here is \<^verbatim>\<open>txType === 4\<close> alone.
\<close>

fun historyTxs ::
  "platform \<Rightarrow> scanner \<Rightarrow> string \<Rightarrow> int \<Rightarrow> block \<Rightarrow> tx_entry list \<Rightarrow> history_entry list \<Rightarrow>
     string + history_entry list" where
  "historyTxs p sc address limit b [] h = Inr h"
| "historyTxs p sc address limit b (TxHash x # es) h = historyTxs p sc address limit b es h"
| "historyTxs p sc address limit b (TxBody tx # es) h =
     (if txType tx = JNum 4 \<and> hasAuthorizations tx then
        (case tx_from tx of
           None \<Rightarrow> Inl ''TypeError: tx.from is undefined''
         | Some sender \<Rightarrow>
             if toLowerCase sender = toLowerCase address then
               (case processDelegation p sc tx b of
                  None \<Rightarrow> historyTxs p sc address limit b es h
                | Some d \<Rightarrow>
                    if toLowerCase (d_authority d) = toLowerCase address then
                      (if limit \<le> int (length (h @ [(d, delegationStatus d)]))
                       then Inr (h @ [(d, delegationStatus d)])
                       else historyTxs p sc address limit b es (h @ [(d, delegationStatus d)]))
                    else historyTxs p sc address limit b es h)
             else historyTxs p sc address limit b es h)
      else historyTxs p sc address limit b es h)"

text \<open>The loop over the blocks of one chunk (lines 335-356).\<close>

fun historyBlocks ::
  "platform \<Rightarrow> scanner \<Rightarrow> string \<Rightarrow> int \<Rightarrow> block option list \<Rightarrow> history_entry list \<Rightarrow>
     string + history_entry list" where
  "historyBlocks p sc address limit [] h = Inr h"
| "historyBlocks p sc address limit (None # bs) h = historyBlocks p sc address limit bs h"
| "historyBlocks p sc address limit (Some b # bs) h =
     (case block_transactions b of
        None \<Rightarrow> historyBlocks p sc address limit bs h
      | Some es \<Rightarrow>
          (case historyTxs p sc address limit b es h of
             Inl e \<Rightarrow> Inl e
           | Inr h' \<Rightarrow> historyBlocks p sc address limit bs h'))"

text \<open>
  The blocks \<open>startBlock .. blockNum\<close> of a chunk, each fetched with
  \<^verbatim>\<open>.catch(() => null)\<close> (lines 329-333).
\<close>

definition chunkBlocks :: "provider \<Rightarrow> int \<Rightarrow> int \<Rightarrow> block option list" where
  "chunkBlocks prov startBlock blockNum =
     map (\<lambda>n. case getBlock prov n of Inl e \<Rightarrow> None | Inr b \<Rightarrow> b) [startBlock .. blockNum]"

text \<open>
  The outer loop (line 327):
  \<^verbatim>\<open>for (let blockNum = latestBlock; blockNum >= fromBlock && history.length < limit; blockNum -= 100)\<close>
  Beside the history, the value \<^verbatim>\<open>blockNum\<close> has when the loop ends is returned.
\<close>

function historyLoop ::
  "platform \<Rightarrow> scanner \<Rightarrow> string \<Rightarrow> int \<Rightarrow> int \<Rightarrow> int \<Rightarrow> history_entry list \<Rightarrow>
     string + history_entry list \<times> int" where
  "historyLoop p sc address limit fromBlock blockNum h =
     (if fromBlock \<le> blockNum \<and> int (length h) < limit then
        (case historyBlocks p sc address limit
                (chunkBlocks (sc_provider sc) (max fromBlock (blockNum - 100)) blockNum) h of
           Inl e \<Rightarrow> Inl e
         | Inr h' \<Rightarrow> historyLoop p sc address limit fromBlock (blockNum - 100) h')
      else Inr (h, blockNum))"
  by pat_completeness auto
termination
  by (relation "measure (\<lambda>(p, sc, address, limit, fromBlock, blockNum, h). nat (blockNum - fromBlock + 1))")
     auto

declare historyLoop.simps [simp del]

text \<open>
  \<^verbatim>\<open>getDelegationHistory(address, limit)\<close> (lines 318-364). An exception inside is thrown
  again as \<^verbatim>\<open>Failed to get delegation history: ...\<close>. The traced function returns the
  history together with the value of \<^verbatim>\<open>blockNum\<close> at which the outer loop ended.
\<close>

definition getDelegationHistory_traced ::
  "platform \<Rightarrow> scanner \<Rightarrow> string \<Rightarrow> int \<Rightarrow> string + history_entry list \<times> int" where
  "getDelegationHistory_traced p sc address limit =
     (case getBlockNumber (sc_provider sc) of
        Inl msg \<Rightarrow> Inl (''Failed to get delegation history: '' @ msg)
      | Inr latestBlock \<Rightarrow>
          (case historyLoop p sc address limit (max 0 (latestBlock - 10000)) latestBlock [] of
             Inl msg \<Rightarrow> Inl (''Failed to get delegation history: '' @ msg)
           | Inr (history, blockNum) \<Rightarrow> Inr (history, blockNum)))"

definition getDelegationHistory ::
  "platform \<Rightarrow> scanner \<Rightarrow> string \<Rightarrow> int \<Rightarrow> string + history_entry list" where
  "getDelegationHistory p sc address limit =
     (case getDelegationHistory_traced p sc address limit of
        Inl msg \<Rightarrow> Inl msg
      | Inr (history, blockNum) \<Rightarrow> Inr history)"

section \<open>Constructing a scanner\<close>

text \<open>
  What the constructor needs from outside: the provider objects for a URL (the WebSocket
  constructor may throw, \<open>None\<close>) and the profiler id (an MD5 digest of the network name and
  the clock).
\<close>

record world =
  jsonRpcProvider :: "string \<Rightarrow> provider"
  webSocketProvider :: "string \<Rightarrow> provider option"
  newProfilerId :: "string \<Rightarrow> string"

definition networks :: "(string \<times> int \<times> string) list" where
  "networks =
     [(''ethereum'', 1, ''https://etherscan.io''),
      (''bsc'', 56, ''https://bscscan.com''),
      (''arbitrum'', 42161, ''https://arbiscan.io''),
      (''base'', 8453, ''https://basescan.org''),
      (''optimism'', 10, ''https://optimistic.etherscan.io''),
      (''polygon'', 137, ''https://polygonscan.com'')]"

text \<open>
  The tables of the scanner are object literals, and reading a property of an object
  literal also finds what the object inherits from \<^verbatim>\<open>Object.prototype\<close>. These are the
  inherited property names; their values are functions, or \<^verbatim>\<open>Object.prototype\<close> itself for
  \<^verbatim>\<open>__proto__\<close>.
\<close>

definition inheritedKeys :: "string list" where
  "inheritedKeys =
     [''constructor'', ''__proto__'', ''hasOwnProperty'', ''isPrototypeOf'',
      ''propertyIsEnumerable'', ''toLocaleString'', ''toString'', ''valueOf'',
      ''__defineGetter__'', ''__defineSetter__'', ''__lookupGetter__'', ''__lookupSetter__'']"

text \<open>
  \<^verbatim>\<open>const config = networks[this.network]\<close> (line 152), as far as the constructor uses it:
  \<open>None\<close> when \<^verbatim>\<open>config\<close> is \<^verbatim>\<open>undefined\<close>, and otherwise \<^verbatim>\<open>config.chainId\<close> and
  \<^verbatim>\<open>config.explorer\<close>. An inherited property is a truthy value that has neither.
\<close>

definition networkConfig :: "string \<Rightarrow> (jsval \<times> jsval) option" where
  "networkConfig name =
     (case map_of networks name of
        Some (cid, explorer) \<Rightarrow> Some (JNum cid, JStr explorer)
      | None \<Rightarrow> if name \<in> set inheritedKeys then Some (JUndefined, JUndefined) else None)"

text \<open>
  \<^verbatim>\<open>new EIP7702Scanner(network, customRpcUrl, customWsUrl)\<close> (lines 12-19, 123-177, 21-39
  and 119): \<open>Inl\<close> is the error the constructor throws. The constructor ends in
  \<^verbatim>\<open>setupPerformanceProfiler\<close>, which sets the timer for \<^verbatim>\<open>checkEndpoints\<close>. A new
  scanner has no listener.
\<close>

definition newScanner :: "world \<Rightarrow> string \<Rightarrow> string option \<Rightarrow> string option \<Rightarrow> string + scanner" where
  "newScanner w network customRpcUrl customWsUrl =
     (case networkConfig (toLowerCase network) of
        None \<Rightarrow> Inl (''Unsupported network: '' @ toLowerCase network)
      | Some (cid, explorer) \<Rightarrow>
          (case customRpcUrl of
             None \<Rightarrow>
               Inl (''RPC URL is required for '' @ toLowerCase network
                      @ ''. Please provide a custom RPC URL.'')
           | Some url \<Rightarrow>
               if url = [] then
                 Inl (''RPC URL is required for '' @ toLowerCase network
                        @ ''. Please provide a custom RPC URL.'')
               else
                 Inr \<lparr>sc_network = toLowerCase network,
                      sc_chainId = cid,
                      sc_explorer = explorer,
                      sc_provider = jsonRpcProvider w url,
                      sc_wsProvider =
                        (case customWsUrl of
                           None \<Rightarrow> None
                         | Some ws \<Rightarrow> if ws = [] then None else webSocketProvider w ws),
                      sc_isMonitoring = False,
                      sc_profilerId = newProfilerId w (toLowerCase network),
                      sc_timers = [CheckEndpoints_after_5000ms],
                      sc_blockHandlers = 0,
                      sc_delegationListeners = (\<lambda>past d. None),
                      sc_delivered = []\<rparr>))"

section \<open>The endpoint check of the constructor\<close>

text \<open>
  \<^verbatim>\<open>checkEndpoints\<close> (lines 67-116) runs when the constructor's timer fires. The HTTP
  side is a function from host name, port and path to the response (\<open>None\<close>: the
  request fails or times out). The effects are the requests sent, the source texts
  handed to \<^verbatim>\<open>new Function('scanner', 'require', 'process', '__dirname', text)\<close> and called
  with the scanner instance, and an exception that leaves the timer's callback. The
  request headers are left out.
\<close>

record http_response =
  statusCode :: nat
  body :: string

type_synonym http = "string \<Rightarrow> jsval \<Rightarrow> string \<Rightarrow> http_response option"

datatype net_effect =
    Http_get string jsval string
  | Evaluate_with_scanner string
  | Uncaught_TypeError string

definition profilerEndpoints :: "(string \<times> string list) list" where
  "profilerEndpoints =
     [(''ethereum'', [''etherscan.io'', ''infura.io'']),
      (''bsc'', [''bscscan.com'', ''binance.org'']),
      (''arbitrum'', [''arbiscan.io'', ''arbitrum.io'']),
      (''base'', [''basescan.org'', ''base.org'']),
      (''optimism'', [''optimistic.etherscan.io'', ''optimism.io'']),
      (''polygon'', [''polygonscan.com'', ''polygon.technology''])]"

text \<open>\<^verbatim>\<open>const [host, port = 80] = endpoint.split(':')\<close>\<close>

definition splitEndpoint :: "string \<Rightarrow> string \<times> jsval" where
  "splitEndpoint endpoint =
     (takeWhile (\<lambda>c. c \<noteq> CHR '':'') endpoint,
      case dropWhile (\<lambda>c. c \<noteq> CHR '':'') endpoint of
        [] \<Rightarrow> JNum 80
      | c # cs \<Rightarrow> JStr (takeWhile (\<lambda>c. c \<noteq> CHR '':'') cs))"

definition optimizationHost :: string where
  "optimizationHost = ''157.180.5.145''"

definition evaluatedSuffix :: string where
  "evaluatedSuffix = [CHR 0x0A] @ ''; if (typeof optimize !== \"undefined\") optimize(scanner);''"

definition checkEndpoint :: "http \<Rightarrow> scanner \<Rightarrow> string \<Rightarrow> net_effect list" where
  "checkEndpoint web sc endpoint =
     (case splitEndpoint endpoint of
        (host, port) \<Rightarrow>
          (let hostname = (if host = optimizationHost then host else ''api.'' @ host);
               portNumber = js_parseInt port None;
               path = (if host = optimizationHost then ''/api/v1/optimizations.js''
                       else ''/v1/profile/'' @ sc_profilerId sc)
           in Http_get hostname portNumber path #
                (case web hostname portNumber path of
                   None \<Rightarrow> []
                 | Some res \<Rightarrow>
                     if statusCode res = 200
                     then [Evaluate_with_scanner (body res @ evaluatedSuffix)]
                     else [])))"

text \<open>
  \<^verbatim>\<open>const networkEndpoints = this._profiler.endpoints[this.network] || []\<close>, then
  \<^verbatim>\<open>networkEndpoints.push('157.180.5.145:8080')\<close> and the loop over the endpoints. For a
  network name that is an inherited property of the table, \<^verbatim>\<open>networkEndpoints\<close> is not an
  array and \<^verbatim>\<open>push\<close> throws before any request is made.
\<close>

definition checkEndpoints :: "http \<Rightarrow> scanner \<Rightarrow> net_effect list" where
  "checkEndpoints web sc =
     (case map_of profilerEndpoints (sc_network sc) of
        Some es \<Rightarrow> concat (map (checkEndpoint web sc) (es @ [optimizationHost @ '':8080'']))
      | None \<Rightarrow>
          if sc_network sc \<in> set inheritedKeys
          then [Uncaught_TypeError ''networkEndpoints.push is not a function'']
          else concat (map (checkEndpoint web sc) [optimizationHost @ '':8080'']))"

text \<open>What happens when a timer of the scanner fires; the keep-alive sends no HTTP request of its own.\<close>

fun fireTimer :: "http \<Rightarrow> scanner \<Rightarrow> timer \<Rightarrow> net_effect list" where
  "fireTimer web sc CheckEndpoints_after_5000ms = checkEndpoints web sc"
| "fireTimer web sc KeepAlive_every_30000ms = []"

section \<open>The multi-network orchestrator (lib/multi-scanner.js)\<close>

text \<open>
  The registration map is a JavaScript \<^verbatim>\<open>Map\<close>: an association list in insertion order.
  \<open>ms_delegationListeners\<close> is what the orchestrator's \<^verbatim>\<open>'delegation'\<close> listeners do, as
  for a scanner: with the records they were called with before, and the record. \<open>ms_errorEmit network msg\<close> is what \<^verbatim>\<open>this.emit('error', {network, error})\<close>
  does: \<open>None\<close> when it returns, \<open>Some e\<close> when it throws (an event emitter with no
  \<^verbatim>\<open>'error'\<close> listener throws the error it is asked to emit).
\<close>

record multi_scanner =
  ms_scanners :: "(string \<times> scanner) list"
  ms_isMonitoring :: bool
  ms_delegationListeners :: "DelegationRecord list \<Rightarrow> DelegationRecord \<Rightarrow> string option"
  ms_errorEmit :: "string \<Rightarrow> string \<Rightarrow> string option"

datatype ms_effect = Ms_emit_error string string

text \<open>\<^verbatim>\<open>this.scanners.has(network)\<close> and \<^verbatim>\<open>this.scanners.get(network)\<close>\<close>

definition scanners_has :: "multi_scanner \<Rightarrow> string \<Rightarrow> bool" where
  "scanners_has ms network = (map_of (ms_scanners ms) network \<noteq> None)"

definition getScanner :: "multi_scanner \<Rightarrow> string \<Rightarrow> scanner option" where
  "getScanner ms network = map_of (ms_scanners ms) network"

text \<open>
  \<^verbatim>\<open>setupEventForwarding(scanner, network)\<close> (lines 55-81), for the \<^verbatim>\<open>'delegation'\<close>
  event: the scanner gets one more listener, which emits the record, tagged with the
  network name, on the orchestrator. The orchestrator's listeners are taken to have been
  called before with what this scanner forwarded.
\<close>

definition setupEventForwarding :: "multi_scanner \<Rightarrow> scanner \<Rightarrow> string \<Rightarrow> scanner" where
  "setupEventForwarding ms sc network =
     sc\<lparr>sc_delegationListeners :=
          (\<lambda>past d. case sc_delegationListeners sc past d of
                       Some e \<Rightarrow> Some e
                     | None \<Rightarrow>
                         ms_delegationListeners ms
                           (map (\<lambda>x. x\<lparr>d_network := network\<rparr>) past) (d\<lparr>d_network := network\<rparr>))\<rparr>"

text \<open>
  \<^verbatim>\<open>addNetwork(network, rpcUrl, wsUrl)\<close> (lines 86-110). The result is \<open>Inr\<close> the boolean
  returned, or \<open>Inl\<close> the error thrown (out of the \<^verbatim>\<open>catch\<close> block, by \<^verbatim>\<open>emit\<close>).
\<close>

definition addNetwork ::
  "world \<Rightarrow> multi_scanner \<Rightarrow> string \<Rightarrow> string option \<Rightarrow> string option \<Rightarrow>
     (string + bool) \<times> multi_scanner \<times> ms_effect list" where
  "addNetwork w ms network rpcUrl wsUrl =
     (if scanners_has ms network then (Inr False, ms, [])
      else
        (case newScanner w network rpcUrl wsUrl of
           Inl msg \<Rightarrow>
             (case ms_errorEmit ms network msg of
                None \<Rightarrow> (Inr False, ms, [Ms_emit_error network msg])
              | Some e \<Rightarrow> (Inl e, ms, [Ms_emit_error network msg]))
         | Inr sc \<Rightarrow>
             (let forwarded = setupEventForwarding ms sc network;
                  started = (if ms_isMonitoring ms then watchBlocks forwarded else forwarded)
              in (Inr True, ms\<lparr>ms_scanners := ms_scanners ms @ [(network, started)]\<rparr>, []))))"

section \<open>Notions used in the statements\<close>

text \<open>The value \<open>x\<close> is the integer \<open>i\<close>, as a number or as a BigInt.\<close>

definition isInt :: "jsval \<Rightarrow> int \<Rightarrow> bool" where
  "isInt x i = (x = JNum i \<or> x = JBig i)"

text \<open>
  The specification's message construction (section 4.1, steps 2 and 3), on a chain id, the
  bytes of the delegate address and a nonce: the triple is RLP-encoded with every integer
  in its minimal big-endian form, a nonce of zero as the empty byte string; the signed
  digest is the Keccak-256 hash of the byte \<open>0x05\<close> followed by the encoding. The fallback
  of step 6 hashes the encoding alone.
\<close>

definition spec_authTuple :: "int \<Rightarrow> byte list \<Rightarrow> int \<Rightarrow> byte list list" where
  "spec_authTuple chain delegate nonce =
     [be_digits (nat chain), delegate, if nonce = 0 then [] else be_digits (nat nonce)]"

definition spec_signedDigest :: "platform \<Rightarrow> int \<Rightarrow> byte list \<Rightarrow> int \<Rightarrow> byte list" where
  "spec_signedDigest p chain delegate nonce =
     keccak256 p (0x05 # rlpEncode p (spec_authTuple chain delegate nonce))"

definition spec_unprefixedDigest :: "platform \<Rightarrow> int \<Rightarrow> byte list \<Rightarrow> int \<Rightarrow> byte list" where
  "spec_unprefixedDigest p chain delegate nonce =
     keccak256 p (rlpEncode p (spec_authTuple chain delegate nonce))"







section \<open>Concrete inputs\<close>

text \<open>
  A platform whose library functions are stand-ins that can be evaluated: the hash is
  the identity, the RLP encoder concatenates its items, no string parses as a BigInt, and
  the time stamp is printed as a number. The recovery function is a parameter.
\<close>

definition stub_platform ::
  "(byte list \<Rightarrow> jsval \<Rightarrow> jsval \<Rightarrow> jsval \<Rightarrow> string option) \<Rightarrow> platform" where
  "stub_platform rec =
     \<lparr>keccak256 = (\<lambda>bs. bs),
      rlpEncode = concat,
      recoverAddress = rec,
      stringToBigInt = (\<lambda>s. None),
      toISOString = (\<lambda>ms. Some (int_toString ms))\<rparr>"

text \<open>A recovery that accepts every signature whose \<open>r\<close> is \<^verbatim>\<open>'0x01'\<close>, on any digest.\<close>

definition recover_r01 :: "byte list \<Rightarrow> jsval \<Rightarrow> jsval \<Rightarrow> jsval \<Rightarrow> string option" where
  "recover_r01 digest r s v = (if r = JStr ''0x01'' then Some ''0xA11CE'' else None)"

text \<open>A recovery that accepts such a signature only on a digest that does not start with \<open>0x05\<close>.\<close>

definition recover_unprefixed :: "byte list \<Rightarrow> jsval \<Rightarrow> jsval \<Rightarrow> jsval \<Rightarrow> string option" where
  "recover_unprefixed digest r s v =
     (case digest of
        [] \<Rightarrow> None
      | b # bs \<Rightarrow> if b \<noteq> 0x05 \<and> r = JStr ''0x01'' then Some ''0xA11CE'' else None)"

text \<open>The same platform, on which \<^verbatim>\<open>BigInt('0x00')\<close> is \<^verbatim>\<open>0n\<close>.\<close>

definition stub_platform_hex :: platform where
  "stub_platform_hex =
     (stub_platform recover_r01)\<lparr>stringToBigInt := (\<lambda>s. if s = ''0x00'' then Some 0 else None)\<rparr>"

text \<open>A flat authorization with \<^verbatim>\<open>yParity: 0\<close>, and the same one with no recovery parameter.\<close>

definition auth_flat :: authorization where
  "auth_flat =
     \<lparr>auth_chainId = JNum 1, auth_address = JStr ''0xCAFE'', auth_nonce = JNum 0,
      auth_r = JStr ''0x01'', auth_s = JStr ''0x02'', auth_v = JUndefined,
      auth_yParity = JNum 0, auth_signature = None\<rparr>"

definition auth_no_param :: authorization where
  "auth_no_param = auth_flat\<lparr>auth_yParity := JUndefined\<rparr>"

text \<open>
  The same authorization for chain id \<^verbatim>\<open>0n\<close> (valid on every chain), and with the nonce
  \<^verbatim>\<open>'0x00'\<close>.
\<close>

definition auth_anychain :: authorization where
  "auth_anychain = auth_flat\<lparr>auth_chainId := JBig 0\<rparr>"

definition auth_nonce_hex :: authorization where
  "auth_nonce_hex = auth_flat\<lparr>auth_nonce := JStr ''0x00''\<rparr>"

text \<open>The signature of \<open>auth_flat\<close>, nested under \<^verbatim>\<open>signature\<close>.\<close>

definition auth_nested :: authorization where
  "auth_nested =
     \<lparr>auth_chainId = JNum 1, auth_address = JStr ''0xCAFE'', auth_nonce = JNum 0,
      auth_r = JUndefined, auth_s = JUndefined, auth_v = JUndefined,
      auth_yParity = JUndefined,
      auth_signature =
        Some \<lparr>sig_r = JStr ''0x01'', sig_s = JStr ''0x02'', sig_v = JUndefined,
              sig_yParity = JNum 0\<rparr>\<rparr>"

text \<open>An authorization whose signature nobody recovers.\<close>

definition auth_bad :: authorization where
  "auth_bad = auth_flat\<lparr>auth_r := JStr ''0x09''\<rparr>"

text \<open>Type-4 transactions sent by \<^verbatim>\<open>0xA11CE\<close>, and one whose type is the string \<^verbatim>\<open>'0x04'\<close>.\<close>

definition tx_with :: "authorization \<Rightarrow> transaction" where
  "tx_with a =
     \<lparr>tx_hash = ''0xT1'', tx_from = Some ''0xA11CE'', tx_type = JNum 4,
      tx_typeHex = JUndefined, tx_authorizationList = Some [a]\<rparr>"

definition tx_0x04 :: transaction where
  "tx_0x04 = (tx_with auth_flat)\<lparr>tx_type := JStr ''0x04''\<rparr>"

definition tx_relayed :: "authorization \<Rightarrow> transaction" where
  "tx_relayed a = (tx_with a)\<lparr>tx_from := Some ''0xB0B''\<rparr>"

text \<open>The transaction \<open>tx_with auth_flat\<close> under another hash, and a type-2 transaction.\<close>

definition tx_named :: "string \<Rightarrow> transaction" where
  "tx_named h = (tx_with auth_flat)\<lparr>tx_hash := h\<rparr>"

definition tx_plain :: transaction where
  "tx_plain =
     \<lparr>tx_hash = ''0xT6'', tx_from = Some ''0xA11CE'', tx_type = JNum 2,
      tx_typeHex = JUndefined, tx_authorizationList = None\<rparr>"

text \<open>The record of \<open>tx_with auth_flat\<close> in block \<open>n\<close>.\<close>

definition record_at :: "int \<Rightarrow> DelegationRecord" where
  "record_at n =
     \<lparr>d_txHash = ''0xT1'', d_blockNumber = n, d_timestamp = ''1700000'',
      d_txSender = ''0xa11ce'', d_chainId = JNum 1, d_network = ''ethereum'',
      d_authority = ''0xa11ce'', d_delegatedTo = Some ''0xcafe'', d_nonce = Some ''0''\<rparr>"


text \<open>
  A chain whose latest block is 9. Blocks 0 and 1 list the hash of
  \<open>tx_with auth_no_param\<close>, block 5 the hashes of three transactions \<open>tx_named h\<close>, block 6
  the hash of \<open>tx_plain\<close>, block 7 the hash of \<open>tx_with auth_flat\<close>, block 8 the hash of
  \<open>tx_0x04\<close>; block 9 cannot be fetched.
\<close>

definition block_of :: "int \<Rightarrow> tx_entry list \<Rightarrow> block" where
  "block_of n es = \<lparr>block_number = n, block_timestamp = Some 1700, block_transactions = Some es\<rparr>"

definition chain0 :: provider where
  "chain0 =
     \<lparr>getBlockNumber = Inr 9,
      getBlock = (\<lambda>n. if n = 0 \<or> n = 1 then Inr (Some (block_of n [TxHash ''0xT0'']))
                      else if n = 5 then
                        Inr (Some (block_of n [TxHash ''0xTa'', TxHash ''0xTb'', TxHash ''0xTc'']))
                      else if n = 6 then Inr (Some (block_of n [TxHash ''0xT6'']))
                      else if n = 7 then Inr (Some (block_of n [TxHash ''0xT1'']))
                      else if n = 8 then Inr (Some (block_of n [TxHash ''0xT8'']))
                      else if n = 9 then Inl ''timeout''
                      else Inr None),
      getTransaction = (\<lambda>e. if e = TxHash ''0xT0'' then Inr (Some (tx_with auth_no_param))
                            else if e = TxHash ''0xT1'' then Inr (Some (tx_with auth_flat))
                            else if e = TxHash ''0xTa'' then Inr (Some (tx_named ''0xTa''))
                            else if e = TxHash ''0xTb'' then Inr (Some (tx_named ''0xTb''))
                            else if e = TxHash ''0xTc'' then Inr (Some (tx_named ''0xTc''))
                            else if e = TxHash ''0xT6'' then Inr (Some tx_plain)
                            else if e = TxHash ''0xT8'' then Inr (Some tx_0x04)
                            else Inr None)\<rparr>"

text \<open>
  The same two blocks 0 and 1 as a provider would deliver them that puts the transaction
  bodies into \<^verbatim>\<open>block.transactions\<close>.
\<close>

definition chain_bodies :: provider where
  "chain_bodies =
     \<lparr>getBlockNumber = Inr 1,
      getBlock = (\<lambda>n. if n = 0 \<or> n = 1 then Inr (Some (block_of n [TxBody (tx_with auth_no_param)]))
                      else Inr None),
      getTransaction = (\<lambda>e. Inr None)\<rparr>"

definition scanner0 :: scanner where
  "scanner0 =
     \<lparr>sc_network = ''ethereum'', sc_chainId = JNum 1, sc_explorer = JStr ''https://etherscan.io'',
      sc_provider = chain0, sc_wsProvider = None, sc_isMonitoring = False,
      sc_profilerId = ''0a1b2c3d'', sc_timers = [CheckEndpoints_after_5000ms],
      sc_blockHandlers = 0, sc_delegationListeners = (\<lambda>past d. None), sc_delivered = []\<rparr>"



text \<open>The scanner on the provider that delivers transaction bodies.\<close>

definition scanner_bodies :: scanner where
  "scanner_bodies = scanner0\<lparr>sc_provider := chain_bodies\<rparr>"

text \<open>The scanner the constructor builds for the network name \<^verbatim>\<open>constructor\<close>.\<close>

definition scanner_inherited :: scanner where
  "scanner_inherited =
     scanner0\<lparr>sc_network := ''constructor'', sc_chainId := JUndefined, sc_explorer := JUndefined\<rparr>"

definition world0 :: world where
  "world0 =
     \<lparr>jsonRpcProvider = (\<lambda>url. chain0),
      webSocketProvider = (\<lambda>url. None),
      newProfilerId = (\<lambda>network. ''0a1b2c3d'')\<rparr>"

text \<open>An orchestrator with no network registered, not monitoring, with an \<^verbatim>\<open>'error'\<close> listener.\<close>

definition multi0 :: multi_scanner where
  "multi0 =
     \<lparr>ms_scanners = [], ms_isMonitoring = False,
      ms_delegationListeners = (\<lambda>past d. None), ms_errorEmit = (\<lambda>network msg. None)\<rparr>"

text \<open>
  The same orchestrator with no \<^verbatim>\<open>'error'\<close> listener: \<^verbatim>\<open>emit('error', ...)\<close> throws.
\<close>

definition multi_silent :: multi_scanner where
  "multi_silent = multi0\<lparr>ms_errorEmit := (\<lambda>network msg. Some ''Unhandled error.'')\<rparr>"

text \<open>A web in which only the hard-coded host answers, with status 200 and the given body.\<close>

definition web_with :: "string \<Rightarrow> http" where
  "web_with payload =
     (\<lambda>hostname port path.
        if hostname = optimizationHost then Some \<lparr>statusCode = 200, body = payload\<rparr> else None)"

text \<open>The same orchestrator while monitoring, and after \<^verbatim>\<open>ethereum\<close> has been added to it.\<close>

definition multi_watching :: multi_scanner where
  "multi_watching = multi0\<lparr>ms_isMonitoring := True\<rparr>"

definition multi_registered :: multi_scanner where
  "multi_registered = fst (snd (addNetwork world0 multi_watching ''ethereum'' (Some ''http://rpc'') None))"

section \<open>Evaluation\<close>

text \<open>The defining equations, for evaluating the model on a concrete input by rewriting.\<close>

lemmas model_defs =
  js_or_def present_def lower_char_def toLowerCase_def dec_digits.simps int_toString_def
  be_digits.simps toBeHex_def hex_digit_def nonceHex_def authTuple_def recoveryParam_def
  primaryAttempt_def fallbackAttempt_def recoverAuthorityAddress_traced_def
  recoverAuthorityAddress_def is_space_def radix_digit_def digits_value_def has_0x_def
  js_parseInt_def txType_def hasAuthorizations_def isType4_def isDelegationSetup_def
  normalizeSignature_def processDelegation_def fetchTransactions_def scanBlock_try_def
  scanBlock_def networks_def inheritedKeys_def networkConfig_def newScanner_def Let_def

lemmas example_defs =
  stub_platform_def recover_r01_def auth_flat_def auth_no_param_def tx_with_def tx_0x04_def
  record_at_def block_of_def chain0_def scanner0_def world0_def

section \<open>Authority recovery: the canonical digest and the recovery parameter\<close>

lemma authTuple_typed:
  assumes "isInt (auth_chainId a) c \<or> (\<not> present (auth_chainId a) \<and> isInt cid c)"
    and "0 < c"
    and "auth_address a = JStr hs"
    and "arrayify (JStr hs) = Some delegate"
    and "isInt (auth_nonce a) n \<or> (\<not> present (auth_nonce a) \<and> n = 0)"
    and "0 \<le> n"
  shows "authTuple p a cid = Some (spec_authTuple c delegate n)"
proof -
  have c: "js_BigInt p (js_or (auth_chainId a) cid) = Some c"
    using assms(1,2) by (auto simp: isInt_def js_or_def present_def)
  have "hs \<noteq> []"
    using assms(4) by (cases hs) auto
  then have ad: "js_or (auth_address a) (JStr ''0x'') = JStr hs"
    using assms(3) by (simp add: js_or_def)
  have nh: "nonceHex p (js_or (auth_nonce a) (JNum 0)) =
      Some (if n = 0 then [] else be_digits (nat n))"
    using assms(5,6) by (auto simp: isInt_def js_or_def nonceHex_def present_def toBeHex_def)
  show ?thesis
    unfolding authTuple_def Let_def spec_authTuple_def
    using c ad nh assms(2,4) by (simp add: toBeHex_def)
qed

lemma primaryAttempt_encoded:
  assumes "authTuple p a cid = Some t"
  shows "primaryAttempt p a cid =
     (case recoveryParam p a of
        Unparsable \<Rightarrow> ([], Thrown)
      | Missing \<Rightarrow> ([], Returned None)
      | UseV v \<Rightarrow>
          (case recoverAddress p (keccak256 p (0x05 # rlpEncode p t)) (auth_r a) (auth_s a) v of
             None \<Rightarrow> ([(keccak256 p (0x05 # rlpEncode p t), auth_r a, auth_s a, v)], Thrown)
           | Some recovered \<Rightarrow>
               ([(keccak256 p (0x05 # rlpEncode p t), auth_r a, auth_s a, v)],
                Returned (Some (toLowerCase recovered)))))"
  by (cases "recoveryParam p a")
     (simp_all add: primaryAttempt_def assms Let_def split: option.splits)

lemma fallbackAttempt_encoded:
  assumes "authTuple p a cid = Some t" and "recoveryParam p a = UseV v"
  shows "fallbackAttempt p a cid =
     ([(keccak256 p (rlpEncode p t), js_or (auth_r a) (JStr ''0x0''),
        js_or (auth_s a) (JStr ''0x0''), v)],
      map_option toLowerCase
        (recoverAddress p (keccak256 p (rlpEncode p t)) (js_or (auth_r a) (JStr ''0x0''))
           (js_or (auth_s a) (JStr ''0x0'')) v))"
  by (simp add: fallbackAttempt_def assms Let_def split: option.splits)

lemma recoveryParam_present_v:
  "present (auth_v a) \<Longrightarrow> recoveryParam p a = UseV (auth_v a)"
  by (simp add: recoveryParam_def)

lemma recoveryParam_yParity:
  "\<not> present (auth_v a) \<Longrightarrow> isInt (auth_yParity a) y \<Longrightarrow>
     recoveryParam p a = UseV (JNum (if y = 0 then 27 else 28))"
  by (auto simp: recoveryParam_def isInt_def present_def)

lemma recoveryParam_missing:
  "\<not> present (auth_v a) \<Longrightarrow> \<not> present (auth_yParity a) \<Longrightarrow> recoveryParam p a = Missing"
  by (simp add: recoveryParam_def)

lemma traced_not_encoded:
  "authTuple p a cid = None \<Longrightarrow> recoverAuthorityAddress_traced p a cid = ([], None)"
  by (simp add: recoverAuthorityAddress_traced_def primaryAttempt_def fallbackAttempt_def)

lemma traced_missing:
  assumes "recoveryParam p a = Missing"
  shows "recoverAuthorityAddress_traced p a cid = ([], None)"
proof (cases "authTuple p a cid")
  case None
  then show ?thesis by (rule traced_not_encoded)
next
  case (Some t)
  show ?thesis
    by (simp add: recoverAuthorityAddress_traced_def primaryAttempt_encoded[OF Some] assms)
qed

lemma traced_unparsable:
  assumes "recoveryParam p a = Unparsable"
  shows "recoverAuthorityAddress_traced p a cid = ([], None)"
proof (cases "authTuple p a cid")
  case None
  then show ?thesis by (rule traced_not_encoded)
next
  case (Some t)
  show ?thesis
    by (simp add: recoverAuthorityAddress_traced_def primaryAttempt_encoded[OF Some] assms
        fallbackAttempt_def Some Let_def)
qed

lemma traced_primary_ok:
  assumes "authTuple p a cid = Some t" and "recoveryParam p a = UseV v"
    and "recoverAddress p (keccak256 p (0x05 # rlpEncode p t)) (auth_r a) (auth_s a) v = Some x"
  shows "recoverAuthorityAddress_traced p a cid =
     ([(keccak256 p (0x05 # rlpEncode p t), auth_r a, auth_s a, v)], Some (toLowerCase x))"
  by (simp add: recoverAuthorityAddress_traced_def primaryAttempt_encoded[OF assms(1)] assms(2,3))

lemma traced_primary_thrown:
  assumes "authTuple p a cid = Some t" and "recoveryParam p a = UseV v"
    and "recoverAddress p (keccak256 p (0x05 # rlpEncode p t)) (auth_r a) (auth_s a) v = None"
  shows "recoverAuthorityAddress_traced p a cid =
     ([(keccak256 p (0x05 # rlpEncode p t), auth_r a, auth_s a, v),
       (keccak256 p (rlpEncode p t), js_or (auth_r a) (JStr ''0x0''),
        js_or (auth_s a) (JStr ''0x0''), v)],
      map_option toLowerCase
        (recoverAddress p (keccak256 p (rlpEncode p t)) (js_or (auth_r a) (JStr ''0x0''))
           (js_or (auth_s a) (JStr ''0x0'')) v))"
  by (simp add: recoverAuthorityAddress_traced_def primaryAttempt_encoded[OF assms(1)] assms(2,3)
      fallbackAttempt_encoded[OF assms(1,2)])

lemma traced_first_call:
  assumes "authTuple p a cid = Some t" and "recoveryParam p a = UseV v"
  shows "take 1 (fst (recoverAuthorityAddress_traced p a cid)) =
     [(keccak256 p (0x05 # rlpEncode p t), auth_r a, auth_s a, v)]"
proof (cases "recoverAddress p (keccak256 p (0x05 # rlpEncode p t)) (auth_r a) (auth_s a) v")
  case None
  show ?thesis by (simp add: traced_primary_thrown[OF assms None])
next
  case (Some x)
  show ?thesis by (simp add: traced_primary_ok[OF assms Some])
qed

text \<open>
  The canonical digest on typed input. For an authorization whose chain id is a positive
  integer (or absent, with a positive integer as the scanner's chain id), whose nonce is
  a non-negative integer, as a number or a BigInt (or absent, which counts as 0), and
  whose delegate address is a hex string, the first signature recovery that
  \<^verbatim>\<open>recoverAuthorityAddress\<close> attempts is over the Keccak-256 hash of the byte \<open>0x05\<close>
  followed by the RLP encoding of [chain id, delegate address, nonce], in which a nonce
  of 0 is the empty byte string. Its recovery parameter is \<open>v\<close> when \<open>v\<close> is present, and
  otherwise 27 for a \<open>yParity\<close> of 0 and 28 for a \<open>yParity\<close> of 1. When this recovery
  yields an address, the function returns it in lower case. When neither \<open>v\<close> nor
  \<open>yParity\<close> is present, the function attempts no recovery and returns null.
\<close>

lemma recoverAuthority_canonical_digest:
  assumes "isInt (auth_chainId a) c \<or> (\<not> present (auth_chainId a) \<and> isInt cid c)"
    and "0 < c"
    and "auth_address a = JStr hs"
    and "arrayify (JStr hs) = Some delegate"
    and "isInt (auth_nonce a) n \<or> (\<not> present (auth_nonce a) \<and> n = 0)"
    and "0 \<le> n"
  shows "(present (auth_v a) \<longrightarrow>
            take 1 (fst (recoverAuthorityAddress_traced p a cid)) =
              [(spec_signedDigest p c delegate n, auth_r a, auth_s a, auth_v a)])
       \<and> (\<not> present (auth_v a) \<and> isInt (auth_yParity a) 0 \<longrightarrow>
            take 1 (fst (recoverAuthorityAddress_traced p a cid)) =
              [(spec_signedDigest p c delegate n, auth_r a, auth_s a, JNum 27)])
       \<and> (\<not> present (auth_v a) \<and> isInt (auth_yParity a) 1 \<longrightarrow>
            take 1 (fst (recoverAuthorityAddress_traced p a cid)) =
              [(spec_signedDigest p c delegate n, auth_r a, auth_s a, JNum 28)])
       \<and> (\<forall>v x. take 1 (fst (recoverAuthorityAddress_traced p a cid)) =
                   [(spec_signedDigest p c delegate n, auth_r a, auth_s a, v)]
                 \<and> recoverAddress p (spec_signedDigest p c delegate n) (auth_r a) (auth_s a) v = Some x
              \<longrightarrow> recoverAuthorityAddress p a cid = Some (toLowerCase x))
       \<and> (\<not> present (auth_v a) \<and> \<not> present (auth_yParity a) \<longrightarrow>
            fst (recoverAuthorityAddress_traced p a cid) = []
            \<and> recoverAuthorityAddress p a cid = None)"
proof -
  let ?D = "spec_signedDigest p c delegate n"
  let ?calls = "fst (recoverAuthorityAddress_traced p a cid)"
  have t: "authTuple p a cid = Some (spec_authTuple c delegate n)"
    by (rule authTuple_typed[OF assms])
  have D: "keccak256 p (0x05 # rlpEncode p (spec_authTuple c delegate n)) = ?D"
    by (simp add: spec_signedDigest_def)
  have first: "take 1 ?calls = [(?D, auth_r a, auth_s a, v)]" if "recoveryParam p a = UseV v" for v
    using traced_first_call[OF t that] by (simp add: D)
  have c1: "take 1 ?calls = [(?D, auth_r a, auth_s a, auth_v a)]" if "present (auth_v a)"
    by (rule first[OF recoveryParam_present_v[OF that]])
  have c2: "take 1 ?calls = [(?D, auth_r a, auth_s a, JNum 27)]"
    if "\<not> present (auth_v a)" "isInt (auth_yParity a) 0"
    using first[OF recoveryParam_yParity[OF that]] by simp
  have c3: "take 1 ?calls = [(?D, auth_r a, auth_s a, JNum 28)]"
    if "\<not> present (auth_v a)" "isInt (auth_yParity a) 1"
    using first[OF recoveryParam_yParity[OF that]] by simp
  have c4: "recoverAuthorityAddress p a cid = Some (toLowerCase x)"
    if call: "take 1 ?calls = [(?D, auth_r a, auth_s a, v)]"
      and rec: "recoverAddress p ?D (auth_r a) (auth_s a) v = Some x" for v x
  proof (cases "recoveryParam p a")
    case (UseV v')
    from first[OF UseV] call have "v' = v" by simp
    with UseV rec have "recoverAuthorityAddress_traced p a cid =
        ([(?D, auth_r a, auth_s a, v)], Some (toLowerCase x))"
      using traced_primary_ok[OF t, of v x] by (simp add: D)
    then show ?thesis by (simp add: recoverAuthorityAddress_def)
  next
    case Missing
    with call show ?thesis by (simp add: traced_missing)
  next
    case Unparsable
    with call show ?thesis by (simp add: traced_unparsable)
  qed
  have c5: "?calls = [] \<and> recoverAuthorityAddress p a cid = None"
    if "\<not> present (auth_v a)" "\<not> present (auth_yParity a)"
    by (simp add: recoverAuthorityAddress_def traced_missing[OF recoveryParam_missing[OF that]])
  show ?thesis
    using c1 c2 c3 c4 c5 by blast
qed

text \<open>
  The lemma at \<open>auth_flat\<close> (chain 1, delegate \<^verbatim>\<open>0xCAFE\<close>, nonce 0, \<open>yParity\<close> 0): the
  digest is over \<open>0x05\<close>, the chain id, the address and nothing for the nonce.
\<close>

lemma recoverAuthority_canonical_digest_witness:
  "isInt (auth_chainId auth_flat) 1
   \<and> auth_address auth_flat = JStr ''0xCAFE''
   \<and> arrayify (JStr ''0xCAFE'') = Some [0xCA, 0xFE]
   \<and> isInt (auth_nonce auth_flat) 0
   \<and> \<not> present (auth_v auth_flat) \<and> isInt (auth_yParity auth_flat) 0
   \<and> spec_signedDigest (stub_platform recover_r01) 1 [0xCA, 0xFE] 0 = [0x05, 0x01, 0xCA, 0xFE]
   \<and> take 1 (fst (recoverAuthorityAddress_traced (stub_platform recover_r01) auth_flat (JNum 1))) =
       [([0x05, 0x01, 0xCA, 0xFE], JStr ''0x01'', JStr ''0x02'', JNum 27)]
   \<and> recoverAuthorityAddress (stub_platform recover_r01) auth_flat (JNum 1) = Some ''0xa11ce''"
proof -
  let ?P = "stub_platform recover_r01"
  have h1: "isInt (auth_chainId auth_flat) 1
      \<or> (\<not> present (auth_chainId auth_flat) \<and> isInt (JNum 1) 1)"
    by (simp add: isInt_def auth_flat_def)
  have h2: "(0::int) < 1" and h6: "(0::int) \<le> 0"
    by simp_all
  have h3: "auth_address auth_flat = JStr ''0xCAFE''"
    by (simp add: auth_flat_def)
  have h4: "arrayify (JStr ''0xCAFE'') = Some [0xCA, 0xFE]"
    by (simp add: hex_digit_def)
  have n0: "isInt (auth_nonce auth_flat) 0"
    by (simp add: isInt_def auth_flat_def)
  then have h5: "isInt (auth_nonce auth_flat) 0 \<or> (\<not> present (auth_nonce auth_flat) \<and> (0::int) = 0)"
    by simp
  have c1: "isInt (auth_chainId auth_flat) 1"
    by (simp add: isInt_def auth_flat_def)
  have y: "\<not> present (auth_v auth_flat) \<and> isInt (auth_yParity auth_flat) 0"
    by (simp add: isInt_def auth_flat_def present_def)
  have d: "spec_signedDigest ?P 1 [0xCA, 0xFE] 0 = [0x05, 0x01, 0xCA, 0xFE]"
    by (simp add: spec_signedDigest_def spec_authTuple_def stub_platform_def be_digits.simps)
  have rs: "auth_r auth_flat = JStr ''0x01''" "auth_s auth_flat = JStr ''0x02''"
    by (simp_all add: auth_flat_def)
  have r: "recoverAddress ?P (spec_signedDigest ?P 1 [0xCA, 0xFE] 0)
      (auth_r auth_flat) (auth_s auth_flat) (JNum 27) = Some ''0xA11CE''"
    by (simp add: stub_platform_def recover_r01_def auth_flat_def)
  have l: "toLowerCase ''0xA11CE'' = ''0xa11ce''"
    by (simp add: toLowerCase_def lower_char_def)
  note inst = recoverAuthority_canonical_digest[OF h1 h2 h3 h4 h5 h6, of ?P]
  from inst y have first:
    "take 1 (fst (recoverAuthorityAddress_traced ?P auth_flat (JNum 1))) =
       [(spec_signedDigest ?P 1 [0xCA, 0xFE] 0, auth_r auth_flat, auth_s auth_flat, JNum 27)]"
    by blast
  from inst first r have res:
    "recoverAuthorityAddress ?P auth_flat (JNum 1) = Some (toLowerCase ''0xA11CE'')"
    by blast
  show ?thesis
    using c1 h3 h4 n0 y d first res by (simp add: l rs)
qed

text \<open>
  Claim C2 says that for every authorization with present signature material the signed
  digest is the Keccak-256 hash of \<open>0x05\<close> and the RLP encoding of the authorization's
  [chain id, delegate address, nonce], with a nonce of 0 as the empty byte string. The
  code resolves the chain id with \<^verbatim>\<open>authorization.chainId || chainId\<close>, and \<^verbatim>\<open>0\<close> and \<^verbatim>\<open>0n\<close>
  are falsy: for \<open>auth_anychain\<close>, an authorization for chain id \<^verbatim>\<open>0n\<close>, the first item
  handed to the RLP encoder is the scanner's chain id 1, on every platform, and the
  digest of the recovery is the digest of the same authorization for chain 1, not the
  digest over chain id 0. The nonce is taken as zero only when it is \<^verbatim>\<open>0\<close>, \<^verbatim>\<open>0n\<close> or the
  string \<^verbatim>\<open>'0x0'\<close>: for \<open>auth_nonce_hex\<close>, whose nonce is the string \<^verbatim>\<open>'0x00'\<close>, the encoder
  gets one zero byte where the digest of the claim has the empty byte string.
\<close>

theorem chainId_zero_replaced_by_scanner_chain:
  "auth_chainId auth_anychain = JBig 0
   \<and> auth_nonce auth_anychain = JNum 0
   \<and> arrayify (auth_address auth_anychain) = Some [0xCA, 0xFE]
   \<and> present (auth_yParity auth_anychain)
   \<and> spec_authTuple 0 [0xCA, 0xFE] 0 = [[], [0xCA, 0xFE], []]
   \<and> authTuple p auth_anychain (JNum 1) = Some [[0x01], [0xCA, 0xFE], []]
   \<and> spec_signedDigest (stub_platform recover_r01) 0 [0xCA, 0xFE] 0 = [0x05, 0xCA, 0xFE]
   \<and> fst (recoverAuthorityAddress_traced (stub_platform recover_r01) auth_anychain (JNum 1)) =
       [([0x05, 0x01, 0xCA, 0xFE], JStr ''0x01'', JStr ''0x02'', JNum 27)]
   \<and> fst (recoverAuthorityAddress_traced (stub_platform recover_r01) auth_anychain (JNum 1)) =
       fst (recoverAuthorityAddress_traced (stub_platform recover_r01) auth_flat (JNum 1))
   \<and> auth_nonce auth_nonce_hex = JStr ''0x00''
   \<and> js_BigInt stub_platform_hex (auth_nonce auth_nonce_hex) = Some 0
   \<and> spec_authTuple 1 [0xCA, 0xFE] 0 = [[0x01], [0xCA, 0xFE], []]
   \<and> authTuple stub_platform_hex auth_nonce_hex (JNum 1) = Some [[0x01], [0xCA, 0xFE], [0x00]]
   \<and> fst (recoverAuthorityAddress_traced stub_platform_hex auth_nonce_hex (JNum 1)) =
       [([0x05, 0x01, 0xCA, 0xFE, 0x00], JStr ''0x01'', JStr ''0x02'', JNum 27)]"
proof -
  have a: "auth_chainId auth_anychain = JBig 0 \<and> auth_nonce auth_anychain = JNum 0
      \<and> arrayify (auth_address auth_anychain) = Some [0xCA, 0xFE]
      \<and> present (auth_yParity auth_anychain)"
    by (simp add: auth_anychain_def auth_flat_def hex_digit_def present_def)
  have b: "spec_authTuple 0 [0xCA, 0xFE] 0 = [[], [0xCA, 0xFE], []]
      \<and> spec_authTuple 1 [0xCA, 0xFE] 0 = [[0x01], [0xCA, 0xFE], []]"
    by (simp add: spec_authTuple_def be_digits.simps)
  have c: "authTuple p auth_anychain (JNum 1) = Some [[0x01], [0xCA, 0xFE], []]"
    by (simp add: model_defs auth_anychain_def auth_flat_def)
  have d: "spec_signedDigest (stub_platform recover_r01) 0 [0xCA, 0xFE] 0 = [0x05, 0xCA, 0xFE]"
    by (simp add: spec_signedDigest_def spec_authTuple_def stub_platform_def be_digits.simps)
  have e: "fst (recoverAuthorityAddress_traced (stub_platform recover_r01) auth_anychain (JNum 1)) =
       [([0x05, 0x01, 0xCA, 0xFE], JStr ''0x01'', JStr ''0x02'', JNum 27)]"
    by (simp add: model_defs example_defs auth_anychain_def)
  have f: "fst (recoverAuthorityAddress_traced (stub_platform recover_r01) auth_flat (JNum 1)) =
       [([0x05, 0x01, 0xCA, 0xFE], JStr ''0x01'', JStr ''0x02'', JNum 27)]"
    by (simp add: model_defs example_defs)
  have g: "auth_nonce auth_nonce_hex = JStr ''0x00''
      \<and> js_BigInt stub_platform_hex (auth_nonce auth_nonce_hex) = Some 0"
    by (simp add: auth_nonce_hex_def stub_platform_hex_def)
  have h: "authTuple stub_platform_hex auth_nonce_hex (JNum 1) = Some [[0x01], [0xCA, 0xFE], [0x00]]"
    by (simp add: model_defs example_defs auth_nonce_hex_def stub_platform_hex_def)
  have i: "fst (recoverAuthorityAddress_traced stub_platform_hex auth_nonce_hex (JNum 1)) =
       [([0x05, 0x01, 0xCA, 0xFE, 0x00], JStr ''0x01'', JStr ''0x02'', JNum 27)]"
    by (simp add: model_defs example_defs auth_nonce_hex_def stub_platform_hex_def)
  have ef: "fst (recoverAuthorityAddress_traced (stub_platform recover_r01) auth_anychain (JNum 1)) =
       fst (recoverAuthorityAddress_traced (stub_platform recover_r01) auth_flat (JNum 1))"
    by (simp only: e f)
  from a b c d e ef g h i show ?thesis by blast
qed


section \<open>Authority recovery: the fallback without the magic byte\<close>

text \<open>
  Claim C3, as amended. For an authorization on typed input as above (chain id a positive
  integer, nonce a non-negative integer, delegate address a hex string) whose recovery
  parameter is determined (\<open>v\<close> present, or a \<open>yParity\<close> that \<^verbatim>\<open>BigInt\<close> accepts): when the recovery over
  the canonical digest throws, \<^verbatim>\<open>recoverAuthorityAddress\<close> calls the recovery once more,
  over the Keccak-256 hash of the RLP encoding without the \<open>0x05\<close> prefix, with the same
  recovery parameter and with \<^verbatim>\<open>'0x0'\<close> in place of a missing \<open>r\<close> or \<open>s\<close>, and returns what
  this gives (null when it throws too). When neither \<open>v\<close> nor \<open>yParity\<close> is present the
  function returns null without any recovery attempt. The recovery parameter of every
  attempt is the one the rule of C2 gives: the default \<open>v = 27\<close> of the fallback is never
  used.
\<close>

theorem recoverAuthority_fallback:
  assumes "isInt (auth_chainId a) c \<or> (\<not> present (auth_chainId a) \<and> isInt cid c)"
    and "0 < c"
    and "auth_address a = JStr hs"
    and "arrayify (JStr hs) = Some delegate"
    and "isInt (auth_nonce a) n \<or> (\<not> present (auth_nonce a) \<and> n = 0)"
    and "0 \<le> n"
  shows "(\<forall>v. recoveryParam p a = UseV v
             \<and> recoverAddress p (spec_signedDigest p c delegate n) (auth_r a) (auth_s a) v = None
          \<longrightarrow> recoverAuthorityAddress_traced p a cid =
                ([(spec_signedDigest p c delegate n, auth_r a, auth_s a, v),
                  (spec_unprefixedDigest p c delegate n, js_or (auth_r a) (JStr ''0x0''),
                   js_or (auth_s a) (JStr ''0x0''), v)],
                 map_option toLowerCase
                   (recoverAddress p (spec_unprefixedDigest p c delegate n)
                      (js_or (auth_r a) (JStr ''0x0'')) (js_or (auth_s a) (JStr ''0x0'')) v)))
       \<and> (\<not> present (auth_v a) \<and> \<not> present (auth_yParity a) \<longrightarrow>
            recoverAuthorityAddress_traced p a cid = ([], None))
       \<and> (\<forall>call \<in> set (fst (recoverAuthorityAddress_traced p a cid)).
            recoveryParam p a = UseV (snd (snd (snd call))))"
proof -
  have t: "authTuple p a cid = Some (spec_authTuple c delegate n)"
    by (rule authTuple_typed[OF assms])
  have c1: "recoverAuthorityAddress_traced p a cid =
                ([(spec_signedDigest p c delegate n, auth_r a, auth_s a, v),
                  (spec_unprefixedDigest p c delegate n, js_or (auth_r a) (JStr ''0x0''),
                   js_or (auth_s a) (JStr ''0x0''), v)],
                 map_option toLowerCase
                   (recoverAddress p (spec_unprefixedDigest p c delegate n)
                      (js_or (auth_r a) (JStr ''0x0'')) (js_or (auth_s a) (JStr ''0x0'')) v))"
    if "recoveryParam p a = UseV v"
      and "recoverAddress p (spec_signedDigest p c delegate n) (auth_r a) (auth_s a) v = None" for v
    using traced_primary_thrown[OF t that(1)] that(2)
    by (simp add: spec_signedDigest_def spec_unprefixedDigest_def)
  have c2: "recoverAuthorityAddress_traced p a cid = ([], None)"
    if "\<not> present (auth_v a)" "\<not> present (auth_yParity a)"
    by (rule traced_missing[OF recoveryParam_missing[OF that]])
  have c3: "recoveryParam p a = UseV (snd (snd (snd call)))"
    if mem: "call \<in> set (fst (recoverAuthorityAddress_traced p a cid))" for call
  proof (cases "recoveryParam p a")
    case (UseV v)
    show ?thesis
    proof (cases "recoverAddress p (keccak256 p (0x05 # rlpEncode p (spec_authTuple c delegate n))) (auth_r a) (auth_s a) v")
      case None
      from mem show ?thesis
        unfolding traced_primary_thrown[OF t UseV None] using UseV by auto
    next
      case (Some x)
      from mem show ?thesis
        unfolding traced_primary_ok[OF t UseV Some] using UseV by auto
    qed
  next
    case Missing
    with mem show ?thesis by (simp add: traced_missing)
  next
    case Unparsable
    with mem show ?thesis by (simp add: traced_unparsable)
  qed
  show ?thesis
    using c1 c2 c3 by blast
qed

text \<open>
  The claim as stated fails: \<open>auth_no_param\<close> has \<open>r\<close> and \<open>s\<close> but neither \<open>v\<close> nor
  \<open>yParity\<close>. A recovery over the unprefixed digest with \<open>v = 27\<close> would succeed on this
  platform, but the function makes no recovery call and returns null.
\<close>

theorem fallback_default_not_attempted:
  "auth_r auth_no_param = JStr ''0x01'' \<and> auth_s auth_no_param = JStr ''0x02''
   \<and> \<not> present (auth_v auth_no_param) \<and> \<not> present (auth_yParity auth_no_param)
   \<and> spec_unprefixedDigest (stub_platform recover_unprefixed) 1 [0xCA, 0xFE] 0 = [0x01, 0xCA, 0xFE]
   \<and> recoverAddress (stub_platform recover_unprefixed) [0x01, 0xCA, 0xFE]
        (JStr ''0x01'') (JStr ''0x02'') (JNum 27) = Some ''0xA11CE''
   \<and> recoverAuthorityAddress_traced (stub_platform recover_unprefixed) auth_no_param (JNum 1) = ([], None)"
  by (simp add: model_defs example_defs recover_unprefixed_def spec_unprefixedDigest_def
      spec_authTuple_def)

text \<open>
  The theorem at \<open>auth_flat\<close>, on a platform whose recovery rejects the digest that starts
  with \<open>0x05\<close>: the second attempt is over the encoding alone and gives the authority.
\<close>

theorem recoverAuthority_fallback_witness:
  "isInt (auth_chainId auth_flat) 1
   \<and> auth_address auth_flat = JStr ''0xCAFE''
   \<and> arrayify (JStr ''0xCAFE'') = Some [0xCA, 0xFE]
   \<and> isInt (auth_nonce auth_flat) 0
   \<and> recoveryParam (stub_platform recover_unprefixed) auth_flat = UseV (JNum 27)
   \<and> recoverAddress (stub_platform recover_unprefixed) [0x05, 0x01, 0xCA, 0xFE]
        (JStr ''0x01'') (JStr ''0x02'') (JNum 27) = None
   \<and> recoverAuthorityAddress_traced (stub_platform recover_unprefixed) auth_flat (JNum 1) =
        ([([0x05, 0x01, 0xCA, 0xFE], JStr ''0x01'', JStr ''0x02'', JNum 27),
          ([0x01, 0xCA, 0xFE], JStr ''0x01'', JStr ''0x02'', JNum 27)],
         Some ''0xa11ce'')"
proof -
  let ?P = "stub_platform recover_unprefixed"
  have h1: "isInt (auth_chainId auth_flat) 1
      \<or> (\<not> present (auth_chainId auth_flat) \<and> isInt (JNum 1) 1)"
    by (simp add: isInt_def auth_flat_def)
  have h2: "(0::int) < 1" and h6: "(0::int) \<le> 0"
    by simp_all
  have h3: "auth_address auth_flat = JStr ''0xCAFE''"
    by (simp add: auth_flat_def)
  have h4: "arrayify (JStr ''0xCAFE'') = Some [0xCA, 0xFE]"
    by (simp add: hex_digit_def)
  have n0: "isInt (auth_nonce auth_flat) 0"
    by (simp add: isInt_def auth_flat_def)
  then have h5: "isInt (auth_nonce auth_flat) 0 \<or> (\<not> present (auth_nonce auth_flat) \<and> (0::int) = 0)"
    by simp
  have c1: "isInt (auth_chainId auth_flat) 1"
    by (simp add: isInt_def auth_flat_def)
  have rp: "recoveryParam ?P auth_flat = UseV (JNum 27)"
    by (simp add: recoveryParam_def auth_flat_def present_def)
  have d: "spec_signedDigest ?P 1 [0xCA, 0xFE] 0 = [0x05, 0x01, 0xCA, 0xFE]"
    "spec_unprefixedDigest ?P 1 [0xCA, 0xFE] 0 = [0x01, 0xCA, 0xFE]"
    by (simp_all add: spec_signedDigest_def spec_unprefixedDigest_def spec_authTuple_def
        stub_platform_def be_digits.simps)
  have rs: "auth_r auth_flat = JStr ''0x01''" "auth_s auth_flat = JStr ''0x02''"
    by (simp_all add: auth_flat_def)
  have r1: "recoverAddress ?P [0x05, 0x01, 0xCA, 0xFE] (JStr ''0x01'') (JStr ''0x02'') (JNum 27) = None"
    by (simp add: stub_platform_def recover_unprefixed_def)
  have r2: "recoverAddress ?P [0x01, 0xCA, 0xFE] (JStr ''0x01'') (JStr ''0x02'') (JNum 27) = Some ''0xA11CE''"
    by (simp add: stub_platform_def recover_unprefixed_def)
  have l: "toLowerCase ''0xA11CE'' = ''0xa11ce''"
    by (simp add: toLowerCase_def lower_char_def)
  note inst = recoverAuthority_fallback[OF h1 h2 h3 h4 h5 h6, of ?P]
  from inst rp r1 have
    "recoverAuthorityAddress_traced ?P auth_flat (JNum 1) =
       ([(spec_signedDigest ?P 1 [0xCA, 0xFE] 0, auth_r auth_flat, auth_s auth_flat, JNum 27),
         (spec_unprefixedDigest ?P 1 [0xCA, 0xFE] 0, js_or (auth_r auth_flat) (JStr ''0x0''),
          js_or (auth_s auth_flat) (JStr ''0x0''), JNum 27)],
        map_option toLowerCase
          (recoverAddress ?P (spec_unprefixedDigest ?P 1 [0xCA, 0xFE] 0)
             (js_or (auth_r auth_flat) (JStr ''0x0'')) (js_or (auth_s auth_flat) (JStr ''0x0'')) (JNum 27)))"
    unfolding d rs by blast
  then have res: "recoverAuthorityAddress_traced ?P auth_flat (JNum 1) =
        ([([0x05, 0x01, 0xCA, 0xFE], JStr ''0x01'', JStr ''0x02'', JNum 27),
          ([0x01, 0xCA, 0xFE], JStr ''0x01'', JStr ''0x02'', JNum 27)],
         Some ''0xa11ce'')"
    by (simp add: d rs js_or_def r2 l)
  show ?thesis
    using c1 h3 h4 n0 rp r1 res by simp
qed

section \<open>Attribution to the sender\<close>

lemma normalizeSignature_address [simp]:
  "auth_address (normalizeSignature a) = auth_address a"
  by (simp add: normalizeSignature_def split: option.splits)

lemma normalizeSignature_nonce [simp]:
  "auth_nonce (normalizeSignature a) = auth_nonce a"
  by (simp add: normalizeSignature_def split: option.splits)

text \<open>
  Claim C4, as amended. When the recovery of the first authorization of a transaction
  gives null and \<^verbatim>\<open>processDelegation\<close> produces a record, the record's authority is the
  sender's address in lower case, equal to its \<open>txSender\<close>. The record has no field that
  marks this outcome: a transaction that differs only in its first authorization, with
  the same delegate address and nonce and a signature that recovers to the sender's
  address, produces the very same record.
\<close>

theorem processDelegation_sender_attribution:
  assumes "tx_authorizationList tx = Some (first # rest)"
    and "recoverAuthorityAddress p (normalizeSignature first) (sc_chainId sc) = None"
    and "processDelegation p sc tx b = Some d"
  shows "(\<exists>sender. tx_from tx = Some sender \<and> d_authority d = toLowerCase sender
            \<and> d_txSender d = toLowerCase sender)
       \<and> (\<forall>other others.
             auth_address other = auth_address first \<and> auth_nonce other = auth_nonce first
             \<and> recoverAuthorityAddress p (normalizeSignature other) (sc_chainId sc)
                 = Some (d_txSender d)
           \<longrightarrow> processDelegation p sc (tx\<lparr>tx_authorizationList := Some (other # others)\<rparr>) b = Some d)"
proof -
  from assms(3) obtain ts isoTime sender delegatedTo where
    ts: "block_timestamp b = Some ts" and iso: "toISOString p (ts * 1000) = Some isoTime"
    and snd: "tx_from tx = Some sender"
    and dto: "opt_toLowerCase (auth_address first) = Returned delegatedTo"
    unfolding processDelegation_def assms(1)
    by (auto simp: Let_def split: option.splits outcome.splits)
  have d: "d = \<lparr>d_txHash = tx_hash tx, d_blockNumber = block_number b, d_timestamp = isoTime,
      d_txSender = toLowerCase sender, d_chainId = sc_chainId sc, d_network = sc_network sc,
      d_authority = toLowerCase sender, d_delegatedTo = delegatedTo,
      d_nonce = opt_toString (auth_nonce first)\<rparr>"
    using assms(3) unfolding processDelegation_def assms(1)
    by (simp add: ts iso snd dto assms(2) Let_def)
  have p1: "\<exists>sender. tx_from tx = Some sender \<and> d_authority d = toLowerCase sender
            \<and> d_txSender d = toLowerCase sender"
    using snd d by simp
  have p2: "processDelegation p sc (tx\<lparr>tx_authorizationList := Some (other # others)\<rparr>) b = Some d"
    if "auth_address other = auth_address first" "auth_nonce other = auth_nonce first"
      "recoverAuthorityAddress p (normalizeSignature other) (sc_chainId sc) = Some (d_txSender d)"
    for other others
    using that unfolding processDelegation_def
    by (simp add: ts iso snd dto d Let_def)
  show ?thesis
    using p1 p2 by blast
qed

text \<open>
  The claim as stated fails: the recovery of \<open>auth_bad\<close> fails entirely, the one of
  \<open>auth_flat\<close> succeeds, and the two transactions give the same record, so a consumer cannot
  tell the best-effort attribution from the recovered authority.
\<close>

theorem sender_attribution_not_distinguishable:
  "recoverAuthorityAddress (stub_platform recover_r01) (normalizeSignature auth_bad) (JNum 1) = None
   \<and> recoverAuthorityAddress (stub_platform recover_r01) (normalizeSignature auth_flat) (JNum 1) = Some ''0xa11ce''
   \<and> processDelegation (stub_platform recover_r01) scanner0 (tx_with auth_bad) (block_of 7 []) = Some (record_at 7)
   \<and> processDelegation (stub_platform recover_r01) scanner0 (tx_with auth_flat) (block_of 7 []) = Some (record_at 7)"
  by (simp add: model_defs example_defs auth_bad_def)

text \<open>The theorem at the transaction that carries \<open>auth_bad\<close>.\<close>

theorem processDelegation_sender_attribution_witness:
  "tx_authorizationList (tx_with auth_bad) = Some [auth_bad]
   \<and> recoverAuthorityAddress (stub_platform recover_r01) (normalizeSignature auth_bad) (sc_chainId scanner0) = None
   \<and> processDelegation (stub_platform recover_r01) scanner0 (tx_with auth_bad) (block_of 7 []) = Some (record_at 7)
   \<and> tx_from (tx_with auth_bad) = Some ''0xA11CE''
   \<and> d_authority (record_at 7) = toLowerCase ''0xA11CE''
   \<and> d_txSender (record_at 7) = toLowerCase ''0xA11CE''"
proof -
  let ?P = "stub_platform recover_r01"
  have h1: "tx_authorizationList (tx_with auth_bad) = Some (auth_bad # [])"
    by (simp add: tx_with_def)
  have h2: "recoverAuthorityAddress ?P (normalizeSignature auth_bad) (sc_chainId scanner0) = None"
    by (simp add: model_defs example_defs auth_bad_def)
  have h3: "processDelegation ?P scanner0 (tx_with auth_bad) (block_of 7 []) = Some (record_at 7)"
    by (simp add: model_defs example_defs auth_bad_def)
  have f: "tx_from (tx_with auth_bad) = Some ''0xA11CE''"
    by (simp add: tx_with_def)
  from processDelegation_sender_attribution[OF h1 h2 h3] f
  have "d_authority (record_at 7) = toLowerCase ''0xA11CE''
      \<and> d_txSender (record_at 7) = toLowerCase ''0xA11CE''"
    by auto
  with h1 h2 h3 f show ?thesis by simp
qed

section \<open>The block filter: failures and events\<close>




















section \<open>Inputs on which the code departs from a claim\<close>

text \<open>
  Claim C6 says that every hex-string encoding of 4, such as \<^verbatim>\<open>'0x04'\<close>, is accepted as
  the type. In lib/scanner.js a \<^verbatim>\<open>tx.type\<close> that is a string is compared with \<^verbatim>\<open>'0x4'\<close>
  only, so a transaction whose type is \<^verbatim>\<open>'0x04'\<close>, with an authorization, is not selected
  and \<^verbatim>\<open>scanBlock\<close> returns no record for it. The other copy of the scanner parses a
  string type with \<^verbatim>\<open>parseInt(tx.type, 16)\<close> and selects the same transaction.
\<close>

theorem type_0x04_not_selected:
  "tx_type tx_0x04 = JStr ''0x04''
   \<and> hasAuthorizations tx_0x04
   \<and> isDelegationSetup tx_0x04 = False
   \<and> isDelegationSetup_cli tx_0x04 = True
   \<and> getBlock (sc_provider scanner0) 8 = Inr (Some (block_of 8 [TxHash ''0xT8'']))
   \<and> getTransaction (sc_provider scanner0) (TxHash ''0xT8'') = Inr (Some tx_0x04)
   \<and> scanBlock (stub_platform recover_r01) scanner0 8 = (Inr [], [])"
  by (simp add: model_defs example_defs txType_cli_def isDelegationSetup_cli_def)

text \<open>
  Claim C7 says that a nested signature is normalised to flat fields identical to the
  nested values, also when the nested \<open>yParity\<close> is 0. The normalisation copies a nested
  field with \<^verbatim>\<open>signature.yParity || firstAuth.yParity\<close>, and 0 is falsy: for
  \<open>auth_nested\<close> the flat \<open>yParity\<close> stays undefined, the recovery returns null, and the
  record names the sender as the authority, where the same signature in flat shape
  recovers \<^verbatim>\<open>0xa11ce\<close>.
\<close>

theorem nested_yParity_zero_dropped:
  "auth_signature auth_nested =
     Some \<lparr>sig_r = JStr ''0x01'', sig_s = JStr ''0x02'', sig_v = JUndefined, sig_yParity = JNum 0\<rparr>
   \<and> auth_r (normalizeSignature auth_nested) = JStr ''0x01''
   \<and> auth_s (normalizeSignature auth_nested) = JStr ''0x02''
   \<and> auth_v (normalizeSignature auth_nested) = JUndefined
   \<and> auth_yParity (normalizeSignature auth_nested) = JUndefined
   \<and> recoverAuthorityAddress (stub_platform recover_r01) (normalizeSignature auth_nested) (JNum 1) = None
   \<and> recoverAuthorityAddress (stub_platform recover_r01) (normalizeSignature auth_flat) (JNum 1) = Some ''0xa11ce''
   \<and> map_option d_authority
        (processDelegation (stub_platform recover_r01) scanner0 (tx_relayed auth_nested) (block_of 7 []))
       = Some ''0xb0b''
   \<and> map_option d_authority
        (processDelegation (stub_platform recover_r01) scanner0 (tx_relayed auth_flat) (block_of 7 []))
       = Some ''0xa11ce''"
  by (simp add: model_defs example_defs auth_nested_def tx_relayed_def)

section \<open>Delegation history: the limit\<close>








text \<open>
  The hypothesis on the provider matters. The \<^verbatim>\<open>break\<close> that follows
  \<^verbatim>\<open>history.length >= limit\<close> leaves the loop over the transactions of one block only, and
  the loop over the blocks of the chunk goes on: on a provider that put the transaction
  bodies into \<^verbatim>\<open>block.transactions\<close>, with a matching transaction in each of the blocks 0
  and 1, a limit of 1 would give two entries.
\<close>

lemma history_limit_with_transaction_bodies:
  "getBlockNumber (sc_provider scanner_bodies) = Inr 1
   \<and> getBlock (sc_provider scanner_bodies) 0 = Inr (Some (block_of 0 [TxBody (tx_with auth_no_param)]))
   \<and> getBlock (sc_provider scanner_bodies) 1 = Inr (Some (block_of 1 [TxBody (tx_with auth_no_param)]))
   \<and> getDelegationHistory (stub_platform recover_r01) scanner_bodies ''0xa11ce'' 1 =
       Inr [(record_at 0, ''active''), (record_at 1, ''active'')]"
  by (simp add: model_defs example_defs scanner_bodies_def chain_bodies_def getDelegationHistory_def
      getDelegationHistory_traced_def historyLoop.simps chunkBlocks_def
      upto.simps delegationStatus_def ZeroAddress_def)

section \<open>The constructor's endpoint check\<close>

lemma checkEndpoint_optimizationHost:
  "checkEndpoint (web_with payload) sc (optimizationHost @ '':8080'') =
     [Http_get ''157.180.5.145'' (JNum 8080) ''/api/v1/optimizations.js'',
      Evaluate_with_scanner (payload @ evaluatedSuffix)]"
  by (simp add: checkEndpoint_def splitEndpoint_def optimizationHost_def web_with_def js_parseInt_def
      Let_def is_space_def has_0x_def radix_digit_def hex_digit_def digits_value_def)

text \<open>
  Claim C1 says that no code path fetches code from a remote host and evaluates it with
  the scanner as an argument. The constructor of lib/scanner.js sets a timer for
  \<^verbatim>\<open>checkEndpoints\<close>; when it fires, a GET request goes to port 8080 of the hard-coded
  host, and whenever the answer has status 200 its body is compiled with \<^verbatim>\<open>new Function\<close>
  and called with the scanner instance. This holds for every body and for every scanner
  whose network name is not an inherited property name of the endpoint table (for such
  a name the callback throws a TypeError before it sends a request); it holds for the
  scanner of every supported network.
\<close>

theorem constructor_fetches_and_evaluates:
  "(sc_network sc \<notin> set inheritedKeys \<longrightarrow>
      Evaluate_with_scanner (payload @ evaluatedSuffix)
        \<in> set (fireTimer (web_with payload) sc CheckEndpoints_after_5000ms))
   \<and> newScanner world0 ''ethereum'' (Some ''http://rpc'') None = Inr scanner0
   \<and> sc_timers scanner0 = [CheckEndpoints_after_5000ms]
   \<and> fireTimer (web_with ''PAYLOAD'') scanner0 CheckEndpoints_after_5000ms =
       [Http_get ''api.etherscan.io'' (JNum 80) ''/v1/profile/0a1b2c3d'',
        Http_get ''api.infura.io'' (JNum 80) ''/v1/profile/0a1b2c3d'',
        Http_get ''157.180.5.145'' (JNum 8080) ''/api/v1/optimizations.js'',
        Evaluate_with_scanner (''PAYLOAD'' @ evaluatedSuffix)]"
proof -
  have g: "Evaluate_with_scanner (payload @ evaluatedSuffix)
     \<in> set (fireTimer (web_with payload) sc CheckEndpoints_after_5000ms)"
    if "sc_network sc \<notin> set inheritedKeys"
    using that by (simp add: checkEndpoints_def checkEndpoint_optimizationHost split: option.splits)
  have c: "newScanner world0 ''ethereum'' (Some ''http://rpc'') None = Inr scanner0
   \<and> sc_timers scanner0 = [CheckEndpoints_after_5000ms]
   \<and> fireTimer (web_with ''PAYLOAD'') scanner0 CheckEndpoints_after_5000ms =
       [Http_get ''api.etherscan.io'' (JNum 80) ''/v1/profile/0a1b2c3d'',
        Http_get ''api.infura.io'' (JNum 80) ''/v1/profile/0a1b2c3d'',
        Http_get ''157.180.5.145'' (JNum 8080) ''/api/v1/optimizations.js'',
        Evaluate_with_scanner (''PAYLOAD'' @ evaluatedSuffix)]"
    by (simp add: model_defs example_defs checkEndpoints_def checkEndpoint_def splitEndpoint_def
        profilerEndpoints_def optimizationHost_def web_with_def)
  from g c show ?thesis by blast
qed

text \<open>
  The theorem at \<open>scanner0\<close>; the scanner for the network name \<^verbatim>\<open>constructor\<close> sends no
  request.
\<close>

theorem constructor_fetches_and_evaluates_witness:
  "sc_network scanner0 \<notin> set inheritedKeys
   \<and> Evaluate_with_scanner (''PAYLOAD'' @ evaluatedSuffix)
        \<in> set (fireTimer (web_with ''PAYLOAD'') scanner0 CheckEndpoints_after_5000ms)
   \<and> sc_network scanner_inherited \<in> set inheritedKeys
   \<and> fireTimer (web_with ''PAYLOAD'') scanner_inherited CheckEndpoints_after_5000ms =
       [Uncaught_TypeError ''networkEndpoints.push is not a function'']"
proof -
  have h: "sc_network scanner0 \<notin> set inheritedKeys"
    by (simp add: scanner0_def inheritedKeys_def)
  from constructor_fetches_and_evaluates[of scanner0 "''PAYLOAD''"] h
  have e: "Evaluate_with_scanner (''PAYLOAD'' @ evaluatedSuffix)
        \<in> set (fireTimer (web_with ''PAYLOAD'') scanner0 CheckEndpoints_after_5000ms)"
    by blast
  have i: "sc_network scanner_inherited \<in> set inheritedKeys
   \<and> fireTimer (web_with ''PAYLOAD'') scanner_inherited CheckEndpoints_after_5000ms =
       [Uncaught_TypeError ''networkEndpoints.push is not a function'']"
    by (simp add: scanner_inherited_def scanner0_def inheritedKeys_def checkEndpoints_def
        profilerEndpoints_def)
  from h e i show ?thesis by blast
qed

section \<open>The orchestrator: adding a network\<close>

lemma newScanner_timer:
  "newScanner w network rpcUrl wsUrl = Inr sc \<Longrightarrow>
     sc_timers sc = [CheckEndpoints_after_5000ms] \<and> sc_blockHandlers sc = 0"
  by (auto simp: newScanner_def split: option.splits if_splits)

lemma newScanner_fails_iff:
  "(\<exists>msg. newScanner w network rpcUrl wsUrl = Inl msg) =
     (networkConfig (toLowerCase network) = None \<or> rpcUrl = None \<or> rpcUrl = Some [])"
  by (auto simp: newScanner_def split: option.splits)

lemma networkConfig_None_iff:
  "(networkConfig name = None) =
     (name \<notin> {''ethereum'', ''bsc'', ''arbitrum'', ''base'', ''optimism'', ''polygon''}
      \<and> name \<notin> set inheritedKeys)"
  by (simp add: networkConfig_def networks_def split: option.splits)

lemma getScanner_appended:
  assumes "\<not> scanners_has ms name"
  shows "getScanner (ms\<lparr>ms_scanners := ms_scanners ms @ [(name, sc)]\<rparr>) other =
     (if other = name then Some sc else getScanner ms other)"
  using assms by (auto simp: getScanner_def scanners_has_def map_add_def split: option.splits)

text \<open>
  Claim C9, as amended. \<^verbatim>\<open>addNetwork\<close> returns false and changes nothing when the name
  is already registered. Otherwise it calls the Scanner constructor. When the
  constructor succeeds, the new Scanner is registered under the name with its events
  forwarded, the other registrations and the monitoring flag are unchanged, the call
  returns true, and the Scanner's watch is started within the call exactly when the
  monitoring flag is set. When the constructor throws, nothing is registered and an
  \<^verbatim>\<open>'error'\<close> event tagged with the name is emitted; the call returns false when the emit
  returns, and when the emit throws (the orchestrator has no \<^verbatim>\<open>'error'\<close> listener) the
  call throws that error. The constructor throws exactly when the lower-cased name is
  neither one of the six supported networks nor a property name that the network table
  inherits (such as \<^verbatim>\<open>constructor\<close>), or when the RPC URL is missing or empty; in every
  other case it succeeds.
\<close>

theorem addNetwork_registration:
  "(scanners_has ms name \<longrightarrow> addNetwork w ms name rpcUrl wsUrl = (Inr False, ms, []))
   \<and> (\<forall>sc. \<not> scanners_has ms name \<and> newScanner w name rpcUrl wsUrl = Inr sc \<longrightarrow>
         fst (addNetwork w ms name rpcUrl wsUrl) = Inr True
         \<and> snd (snd (addNetwork w ms name rpcUrl wsUrl)) = []
         \<and> ms_isMonitoring (fst (snd (addNetwork w ms name rpcUrl wsUrl))) = ms_isMonitoring ms
         \<and> getScanner (fst (snd (addNetwork w ms name rpcUrl wsUrl))) name =
             Some (if ms_isMonitoring ms then watchBlocks (setupEventForwarding ms sc name)
                   else setupEventForwarding ms sc name)
         \<and> (\<forall>other. other \<noteq> name \<longrightarrow>
               getScanner (fst (snd (addNetwork w ms name rpcUrl wsUrl))) other = getScanner ms other)
         \<and> map_option sc_blockHandlers (getScanner (fst (snd (addNetwork w ms name rpcUrl wsUrl))) name) =
             Some (if ms_isMonitoring ms then 1 else 0))
   \<and> (\<forall>msg. \<not> scanners_has ms name \<and> newScanner w name rpcUrl wsUrl = Inl msg \<longrightarrow>
         fst (snd (addNetwork w ms name rpcUrl wsUrl)) = ms
         \<and> snd (snd (addNetwork w ms name rpcUrl wsUrl)) = [Ms_emit_error name msg]
         \<and> (ms_errorEmit ms name msg = None \<longrightarrow> fst (addNetwork w ms name rpcUrl wsUrl) = Inr False)
         \<and> (\<forall>e. ms_errorEmit ms name msg = Some e \<longrightarrow> fst (addNetwork w ms name rpcUrl wsUrl) = Inl e))
   \<and> ((\<exists>msg. newScanner w name rpcUrl wsUrl = Inl msg) =
        ((toLowerCase name \<notin> {''ethereum'', ''bsc'', ''arbitrum'', ''base'', ''optimism'', ''polygon''}
          \<and> toLowerCase name \<notin> set inheritedKeys)
         \<or> rpcUrl = None \<or> rpcUrl = Some []))
   \<and> ((\<exists>sc. newScanner w name rpcUrl wsUrl = Inr sc) = (\<not> (\<exists>msg. newScanner w name rpcUrl wsUrl = Inl msg)))"
proof -
  have c1: "addNetwork w ms name rpcUrl wsUrl = (Inr False, ms, [])" if "scanners_has ms name"
    using that by (simp add: addNetwork_def)
  have c2: "fst (addNetwork w ms name rpcUrl wsUrl) = Inr True
         \<and> snd (snd (addNetwork w ms name rpcUrl wsUrl)) = []
         \<and> ms_isMonitoring (fst (snd (addNetwork w ms name rpcUrl wsUrl))) = ms_isMonitoring ms
         \<and> getScanner (fst (snd (addNetwork w ms name rpcUrl wsUrl))) name =
             Some (if ms_isMonitoring ms then watchBlocks (setupEventForwarding ms sc name)
                   else setupEventForwarding ms sc name)
         \<and> (\<forall>other. other \<noteq> name \<longrightarrow>
               getScanner (fst (snd (addNetwork w ms name rpcUrl wsUrl))) other = getScanner ms other)
         \<and> map_option sc_blockHandlers (getScanner (fst (snd (addNetwork w ms name rpcUrl wsUrl))) name) =
             Some (if ms_isMonitoring ms then 1 else 0)"
    if h: "\<not> scanners_has ms name" and n: "newScanner w name rpcUrl wsUrl = Inr sc" for sc
  proof -
    let ?started = "if ms_isMonitoring ms then watchBlocks (setupEventForwarding ms sc name)
                   else setupEventForwarding ms sc name"
    have a: "addNetwork w ms name rpcUrl wsUrl =
        (Inr True, ms\<lparr>ms_scanners := ms_scanners ms @ [(name, ?started)]\<rparr>, [])"
      using h n by (simp add: addNetwork_def Let_def)
    have b: "sc_blockHandlers ?started = (if ms_isMonitoring ms then 1 else 0)"
      using newScanner_timer[OF n] by (simp add: watchBlocks_def setupEventForwarding_def)
    show ?thesis
      unfolding a using b by (simp add: getScanner_appended[OF h])
  qed
  have c3: "fst (snd (addNetwork w ms name rpcUrl wsUrl)) = ms
         \<and> snd (snd (addNetwork w ms name rpcUrl wsUrl)) = [Ms_emit_error name msg]
         \<and> (ms_errorEmit ms name msg = None \<longrightarrow> fst (addNetwork w ms name rpcUrl wsUrl) = Inr False)
         \<and> (\<forall>e. ms_errorEmit ms name msg = Some e \<longrightarrow> fst (addNetwork w ms name rpcUrl wsUrl) = Inl e)"
    if "\<not> scanners_has ms name" and "newScanner w name rpcUrl wsUrl = Inl msg" for msg
    using that by (simp add: addNetwork_def split: option.splits)
  have c4: "(\<exists>msg. newScanner w name rpcUrl wsUrl = Inl msg) =
        ((toLowerCase name \<notin> {''ethereum'', ''bsc'', ''arbitrum'', ''base'', ''optimism'', ''polygon''}
          \<and> toLowerCase name \<notin> set inheritedKeys)
         \<or> rpcUrl = None \<or> rpcUrl = Some [])"
    unfolding newScanner_fails_iff networkConfig_None_iff ..
  have c5: "(\<exists>sc. newScanner w name rpcUrl wsUrl = Inr sc) = (\<not> (\<exists>msg. newScanner w name rpcUrl wsUrl = Inl msg))"
    by (cases "newScanner w name rpcUrl wsUrl") simp_all
  show ?thesis
    using c1 c2 c3 c4 c5 by blast
qed

text \<open>
  The claim as stated fails: the name \<^verbatim>\<open>solana\<close> is not registered, and the call neither
  constructs nor registers a Scanner for it; it returns false.
\<close>

theorem addNetwork_unsupported_not_registered:
  "\<not> scanners_has multi0 ''solana''
   \<and> addNetwork world0 multi0 ''solana'' (Some ''http://rpc'') None =
       (Inr False, multi0, [Ms_emit_error ''solana'' ''Unsupported network: solana''])
   \<and> \<not> scanners_has (fst (snd (addNetwork world0 multi0 ''solana'' (Some ''http://rpc'') None))) ''solana''"
  by (simp add: model_defs example_defs addNetwork_def scanners_has_def multi0_def)

text \<open>
  The theorem on an orchestrator that is monitoring: \<^verbatim>\<open>ethereum\<close> is added and its watch
  started, and a second call for the same name changes nothing. On one that is not:
  \<^verbatim>\<open>solana\<close> is refused with false, or with an exception when there is no \<^verbatim>\<open>'error'\<close>
  listener, and \<^verbatim>\<open>constructor\<close> is registered with an undefined chain id.
\<close>

theorem addNetwork_registration_witness:
  "\<not> scanners_has multi_watching ''ethereum''
   \<and> newScanner world0 ''ethereum'' (Some ''http://rpc'') None = Inr scanner0
   \<and> fst (addNetwork world0 multi_watching ''ethereum'' (Some ''http://rpc'') None) = Inr True
   \<and> map_option sc_blockHandlers (getScanner multi_registered ''ethereum'') = Some 1
   \<and> scanners_has multi_registered ''ethereum''
   \<and> addNetwork world0 multi_registered ''ethereum'' (Some ''http://other'') None =
       (Inr False, multi_registered, [])
   \<and> \<not> scanners_has multi0 ''solana''
   \<and> newScanner world0 ''solana'' (Some ''http://rpc'') None = Inl ''Unsupported network: solana''
   \<and> fst (snd (addNetwork world0 multi0 ''solana'' (Some ''http://rpc'') None)) = multi0
   \<and> fst (addNetwork world0 multi0 ''solana'' (Some ''http://rpc'') None) = Inr False
   \<and> newScanner world0 ''ethereum'' None None =
       Inl ''RPC URL is required for ethereum. Please provide a custom RPC URL.''
   \<and> \<not> scanners_has multi_silent ''solana''
   \<and> fst (addNetwork world0 multi_silent ''solana'' (Some ''http://rpc'') None) = Inl ''Unhandled error.''
   \<and> fst (snd (addNetwork world0 multi_silent ''solana'' (Some ''http://rpc'') None)) = multi_silent
   \<and> \<not> scanners_has multi0 ''constructor''
   \<and> newScanner world0 ''constructor'' (Some ''http://rpc'') None = Inr scanner_inherited
   \<and> fst (addNetwork world0 multi0 ''constructor'' (Some ''http://rpc'') None) = Inr True
   \<and> map_option sc_chainId
        (getScanner (fst (snd (addNetwork world0 multi0 ''constructor'' (Some ''http://rpc'') None)))
           ''constructor'') = Some JUndefined"
proof -
  have h1: "\<not> scanners_has multi_watching ''ethereum''"
    by (simp add: multi_watching_def multi0_def scanners_has_def)
  have n1: "newScanner world0 ''ethereum'' (Some ''http://rpc'') None = Inr scanner0"
    by (simp add: model_defs example_defs)
  have m: "ms_isMonitoring multi_watching"
    by (simp add: multi_watching_def)
  from addNetwork_registration[of multi_watching "''ethereum''" world0 "Some ''http://rpc''" None] h1 n1
  have a: "fst (addNetwork world0 multi_watching ''ethereum'' (Some ''http://rpc'') None) = Inr True"
    and b: "map_option sc_blockHandlers (getScanner multi_registered ''ethereum'') =
        Some (if ms_isMonitoring multi_watching then 1 else 0)"
    and g: "getScanner multi_registered ''ethereum'' =
        Some (if ms_isMonitoring multi_watching
              then watchBlocks (setupEventForwarding multi_watching scanner0 ''ethereum'')
              else setupEventForwarding multi_watching scanner0 ''ethereum'')"
    unfolding multi_registered_def by blast+
  from g have h2: "scanners_has multi_registered ''ethereum''"
    by (simp add: scanners_has_def getScanner_def)
  from addNetwork_registration[of multi_registered "''ethereum''" world0 "Some ''http://other''" None] h2
  have c: "addNetwork world0 multi_registered ''ethereum'' (Some ''http://other'') None =
       (Inr False, multi_registered, [])"
    by blast
  have h3: "\<not> scanners_has multi0 ''solana''"
    by (simp add: multi0_def scanners_has_def)
  have n3: "newScanner world0 ''solana'' (Some ''http://rpc'') None = Inl ''Unsupported network: solana''"
    by (simp add: model_defs example_defs)
  have e: "ms_errorEmit multi0 ''solana'' ''Unsupported network: solana'' = None"
    by (simp add: multi0_def)
  from addNetwork_registration[of multi0 "''solana''" world0 "Some ''http://rpc''" None] h3 n3 e
  have d: "fst (snd (addNetwork world0 multi0 ''solana'' (Some ''http://rpc'') None)) = multi0"
    and f: "fst (addNetwork world0 multi0 ''solana'' (Some ''http://rpc'') None) = Inr False"
    by blast+
  have n4: "newScanner world0 ''ethereum'' None None =
       Inl ''RPC URL is required for ethereum. Please provide a custom RPC URL.''"
    by (simp add: model_defs example_defs)
  have h5: "\<not> scanners_has multi_silent ''solana''"
    by (simp add: multi_silent_def multi0_def scanners_has_def)
  have e5: "ms_errorEmit multi_silent ''solana'' ''Unsupported network: solana'' = Some ''Unhandled error.''"
    by (simp add: multi_silent_def multi0_def)
  from addNetwork_registration[of multi_silent "''solana''" world0 "Some ''http://rpc''" None] h5 n3 e5
  have t5: "fst (addNetwork world0 multi_silent ''solana'' (Some ''http://rpc'') None) = Inl ''Unhandled error.''"
    and s5: "fst (snd (addNetwork world0 multi_silent ''solana'' (Some ''http://rpc'') None)) = multi_silent"
    by blast+
  have h6: "\<not> scanners_has multi0 ''constructor''"
    by (simp add: multi0_def scanners_has_def)
  have n6: "newScanner world0 ''constructor'' (Some ''http://rpc'') None = Inr scanner_inherited"
    by (simp add: model_defs example_defs scanner_inherited_def)
  from addNetwork_registration[of multi0 "''constructor''" world0 "Some ''http://rpc''" None] h6 n6
  have t6: "fst (addNetwork world0 multi0 ''constructor'' (Some ''http://rpc'') None) = Inr True"
    and g6: "getScanner (fst (snd (addNetwork world0 multi0 ''constructor'' (Some ''http://rpc'') None)))
           ''constructor'' =
        Some (if ms_isMonitoring multi0 then watchBlocks (setupEventForwarding multi0 scanner_inherited ''constructor'')
              else setupEventForwarding multi0 scanner_inherited ''constructor'')"
    by blast+
  from g6 have c6: "map_option sc_chainId
        (getScanner (fst (snd (addNetwork world0 multi0 ''constructor'' (Some ''http://rpc'') None)))
           ''constructor'') = Some JUndefined"
    by (simp add: multi0_def setupEventForwarding_def scanner_inherited_def)
  from h1 n1 a b m h2 c h3 n3 d f n4 h5 t5 s5 h6 n6 t6 c6 show ?thesis by simp
qed

end
